theory Spec2Isabelle
  imports Main
begin

section \<open>JavaScript values\<close>

text \<open>
  The values that travel through the order store and the verification handler: the
  scalars of JSON, \<open>undefined\<close>, and objects as association lists in property order.
  Numbers are restricted to the integers of magnitude below \<open>10^15\<close>, which both
  JavaScript's \<open>String\<close> and the database write in plain decimal; arrays are left out.
\<close>

datatype jsval =
    JUndefined
  | JNull
  | JBool bool
  | JNum int
  | JStr string
  | JObject "(string \<times> jsval) list"

type_synonym obj = "(string \<times> jsval) list"

fun decimal :: "nat \<Rightarrow> string" where
  "decimal n =
     (if n < 10 then [''0123456789'' ! n]
      else decimal (n div 10) @ [''0123456789'' ! (n mod 10)])"

declare decimal.simps [simp del]

definition String_num :: "int \<Rightarrow> string" where
  "String_num i = (if i < 0 then CHR ''-'' # decimal (nat (- i)) else decimal (nat i))"

text \<open>\<open>String(v)\<close>.\<close>

fun String_js :: "jsval \<Rightarrow> string" where
  "String_js JUndefined = ''undefined''"
| "String_js JNull = ''null''"
| "String_js (JBool b) = (if b then ''true'' else ''false'')"
| "String_js (JNum i) = String_num i"
| "String_js (JStr s) = s"
| "String_js (JObject ps) = ''[object Object]''"

text \<open>Truthiness, as \<open>if (v)\<close>, \<open>v && ...\<close> and \<open>v || ...\<close> test it.\<close>

fun truthy :: "jsval \<Rightarrow> bool" where
  "truthy JUndefined = False"
| "truthy JNull = False"
| "truthy (JBool b) = b"
| "truthy (JNum i) = (i \<noteq> 0)"
| "truthy (JStr s) = (s \<noteq> [])"
| "truthy (JObject ps) = True"

text \<open>
  An argument that the JSDoc types as a string is a \<open>string option\<close>: \<open>None\<close> is
  \<open>undefined\<close> or \<open>null\<close>. It is truthy when it is a non-empty string.
\<close>

definition truthy_str :: "string option \<Rightarrow> bool" where
  "truthy_str a = (case a of None \<Rightarrow> False | Some s \<Rightarrow> s \<noteq> [])"

text \<open>A property read \<open>o.k\<close>.\<close>

definition get_prop :: "obj \<Rightarrow> string \<Rightarrow> jsval" where
  "get_prop ob k = (case map_of ob k of None \<Rightarrow> JUndefined | Some v \<Rightarrow> v)"

text \<open>
  A property write in an object literal: a later \<open>k: v\<close> (or a spread entry) replaces the
  value of an earlier property of the same name and keeps its place.
\<close>

fun set_prop :: "obj \<Rightarrow> string \<Rightarrow> jsval \<Rightarrow> obj" where
  "set_prop [] k v = [(k, v)]"
| "set_prop ((k', v') # ps) k v = (if k' = k then (k, v) # ps else (k', v') # set_prop ps k v)"

fun spread :: "obj \<Rightarrow> obj \<Rightarrow> obj" where
  "spread ob [] = ob"
| "spread ob ((k, v) # ps) = spread (set_prop ob k v) ps"

section \<open>The table \<open>ATTESTATION_KIT_attestations\<close>\<close>

datatype status = Pending | Addressed | Attested

fun status_str :: "status \<Rightarrow> string" where
  "status_str Pending = ''pending''"
| "status_str Addressed = ''addressed''"
| "status_str Attested = ''attested''"

text \<open>
  One row. A nullable column is an \<open>option\<close>, \<open>None\<close> being SQL \<open>NULL\<close>. The primary key
  is called \<open>id\<close> in the schema. The store is the list of rows in the order a
  \<open>SELECT\<close> without \<open>ORDER BY\<close> returns them: by ascending rowid, the order of insertion.
\<close>

record attestation =
  order_id :: nat
  service_provider :: "string option"
  dataKey0 :: "string option"
  dataValue0 :: "string option"
  dataKey1 :: "string option"
  dataValue1 :: "string option"
  dataKey2 :: "string option"
  dataValue2 :: "string option"
  dataKey3 :: "string option"
  dataValue3 :: "string option"
  user_wallet_address :: "string option"
  user_device_address :: "string option"
  unit :: "string option"
  status :: status

type_synonym store = "attestation list"

definition dataKey :: "attestation \<Rightarrow> nat \<Rightarrow> string option" where
  "dataKey r n =
     (if n = 0 then dataKey0 r else if n = 1 then dataKey1 r
      else if n = 2 then dataKey2 r else if n = 3 then dataKey3 r else None)"

definition dataValue :: "attestation \<Rightarrow> nat \<Rightarrow> string option" where
  "dataValue r n =
     (if n = 0 then dataValue0 r else if n = 1 then dataValue1 r
      else if n = 2 then dataValue2 r else if n = 3 then dataValue3 r else None)"

subsection \<open>SQL conditions\<close>

text \<open>
  SQL's three-valued logic: a comparison with \<open>NULL\<close> is unknown (\<open>None\<close>), \<open>AND\<close> and
  \<open>OR\<close> are Kleene's, and a row is selected when its \<open>WHERE\<close> clause is true.
\<close>

definition sql_eq :: "'a option \<Rightarrow> 'a option \<Rightarrow> bool option" where
  "sql_eq a b =
     (case a of None \<Rightarrow> None
      | Some x \<Rightarrow> (case b of None \<Rightarrow> None | Some y \<Rightarrow> Some (x = y)))"

definition sql_and :: "bool option \<Rightarrow> bool option \<Rightarrow> bool option" where
  "sql_and a b =
     (if a = Some False \<or> b = Some False then Some False
      else if a = Some True \<and> b = Some True then Some True else None)"

definition sql_or :: "bool option \<Rightarrow> bool option \<Rightarrow> bool option" where
  "sql_or a b =
     (if a = Some True \<or> b = Some True then Some True
      else if a = Some False \<and> b = Some False then Some False else None)"

text \<open>
  The conditions the queries are built from. \<open>Slot n k v\<close> is the parenthesised
  \<open>(dataKeyN = ? AND dataValueN = ?)\<close> with its two bound parameters; \<open>AnySlot k v\<close> is
  the parenthesised group of the four slot tests joined by \<open>OR\<close> that the store without
  providers appends for one entry.
\<close>

datatype cond =
    Eq_service_provider "string option"
  | Slot nat string "string option"
  | AnySlot string "string option"
  | Eq_user_wallet_address "string option"
  | Eq_id "int option"
  | Not_attested
  | One_eq_one

definition slot_test :: "attestation \<Rightarrow> nat \<Rightarrow> string \<Rightarrow> string option \<Rightarrow> bool option" where
  "slot_test r n k v = sql_and (sql_eq (dataKey r n) (Some k)) (sql_eq (dataValue r n) v)"

fun eval_cond :: "attestation \<Rightarrow> cond \<Rightarrow> bool option" where
  "eval_cond r (Eq_service_provider p) = sql_eq (service_provider r) p"
| "eval_cond r (Slot n k v) = slot_test r n k v"
| "eval_cond r (AnySlot k v) =
     sql_or (slot_test r 0 k v)
       (sql_or (slot_test r 1 k v) (sql_or (slot_test r 2 k v) (slot_test r 3 k v)))"
| "eval_cond r (Eq_user_wallet_address a) = sql_eq (user_wallet_address r) a"
| "eval_cond r (Eq_id i) = sql_eq (Some (int (order_id r))) i"
| "eval_cond r Not_attested = Some (status r \<noteq> Attested)"
| "eval_cond r One_eq_one = Some True"

text \<open>
  The text after \<open>WHERE\<close>, as the code appends to it: conditions and the connectives
  between them. \<open>AND\<close> binds tighter than \<open>OR\<close>: \<open>where_value\<close> carries the value of
  the conjunction being read and closes it at each \<open>OR\<close>.
\<close>

datatype tok = C cond | AND | OR

fun where_value :: "attestation \<Rightarrow> bool option \<Rightarrow> tok list \<Rightarrow> bool option" where
  "where_value r cur (AND # C c # ts) = where_value r (sql_and cur (eval_cond r c)) ts"
| "where_value r cur (OR # C c # ts) = sql_or cur (where_value r (eval_cond r c) ts)"
| "where_value r cur ts = cur"

fun well_formed_tail :: "tok list \<Rightarrow> bool" where
  "well_formed_tail [] = True"
| "well_formed_tail (AND # C c # ts) = well_formed_tail ts"
| "well_formed_tail (OR # C c # ts) = well_formed_tail ts"
| "well_formed_tail ts = False"

fun well_formed :: "tok list \<Rightarrow> bool" where
  "well_formed (C c # ts) = well_formed_tail ts"
| "well_formed ts = False"

fun eval_where :: "attestation \<Rightarrow> tok list \<Rightarrow> bool option" where
  "eval_where r (C c # ts) = where_value r (eval_cond r c) ts"
| "eval_where r ts = None"

section \<open>Errors\<close>

text \<open>
  What a function can throw. \<open>ErrorWithMessage message meta\<close> is the repository's error
  class with the object literal it is constructed from; the other three are raised by
  the JavaScript runtime and by the database driver.
\<close>

datatype exn =
    ErrorWithMessage string obj
  | ReferenceError string
  | TypeError string
  | SqlError string

text \<open>\<open>db.query\<close> of a \<open>SELECT * FROM ATTESTATION_KIT_attestations WHERE ...\<close>.\<close>

definition db_select :: "store \<Rightarrow> tok list \<Rightarrow> exn + attestation list" where
  "db_select s query =
     (if well_formed query then Inr (filter (\<lambda>r. eval_where r query = Some True) s)
      else Inl (SqlError ''syntax error''))"

text \<open>
  What \<open>getAttestationOrders\<close> hands back: \<open>attestationRows\<close> when \<open>multiple\<close> is set,
  else \<open>attestationRows[0] || null\<close>; the provider-scoped store can also return (not
  throw) an error object.
\<close>

datatype lookup = Null | Row attestation | Rows "attestation list" | ErrorValue exn

definition rows_result :: "bool \<Rightarrow> attestation list \<Rightarrow> lookup" where
  "rows_result multiple attestationRows =
     (if multiple then Rows attestationRows
      else (case attestationRows of [] \<Rightarrow> Null | r # _ \<Rightarrow> Row r))"

text \<open>\<open>if (order)\<close>: every object is truthy, also an empty array and an error object.\<close>

fun truthy_lookup :: "lookup \<Rightarrow> bool" where
  "truthy_lookup Null = False"
| "truthy_lookup (Row r) = True"
| "truthy_lookup (Rows rs) = True"
| "truthy_lookup (ErrorValue e) = True"

section \<open>Validation\<close>

text \<open>
  The module \<open>utils/Validation\<close> is not part of the sources: its four predicates are a
  parameter of every function that calls them.
\<close>

record validation =
  isDataObject :: "obj option \<Rightarrow> bool"
  isWalletAddress :: "string option \<Rightarrow> bool"
  isServiceProvider :: "string option \<Rightarrow> bool"
  isUnit :: "string option \<Rightarrow> bool"

section \<open>Rows as JavaScript objects, and writes\<close>

definition data_val :: "obj option \<Rightarrow> jsval" where
  "data_val data = (case data of None \<Rightarrow> JUndefined | Some d \<Rightarrow> JObject d)"

definition str_val :: "string option \<Rightarrow> jsval" where
  "str_val a = (case a of None \<Rightarrow> JNull | Some s \<Rightarrow> JStr s)"

text \<open>
  The properties the callers read from what a lookup returned. Only a row has them: on an
  array of rows or an error object the read gives \<open>undefined\<close>, and \<open>Number(undefined)\<close>
  is \<open>NaN\<close>, which no \<open>id\<close> equals (\<open>None\<close> as a bound parameter).
\<close>

fun lookup_status :: "lookup \<Rightarrow> jsval" where
  "lookup_status (Row r) = JStr (status_str (status r))"
| "lookup_status other = JUndefined"

fun lookup_unit :: "lookup \<Rightarrow> jsval" where
  "lookup_unit (Row r) = str_val (unit r)"
| "lookup_unit other = JUndefined"

fun lookup_user_wallet_address :: "lookup \<Rightarrow> jsval" where
  "lookup_user_wallet_address (Row r) = str_val (user_wallet_address r)"
| "lookup_user_wallet_address other = JUndefined"

fun lookup_service_provider :: "lookup \<Rightarrow> jsval" where
  "lookup_service_provider (Row r) = str_val (service_provider r)"
| "lookup_service_provider other = JUndefined"

fun lookup_id :: "lookup \<Rightarrow> int option" where
  "lookup_id (Row r) = Some (int (order_id r))"
| "lookup_id other = None"

text \<open>
  \<open>db.query\<close> of an \<open>UPDATE ... SET ... WHERE ...\<close>: every row whose \<open>WHERE\<close> clause is
  true is rewritten.
\<close>

definition db_update :: "store \<Rightarrow> tok list \<Rightarrow> (attestation \<Rightarrow> attestation) \<Rightarrow> store" where
  "db_update s query assign = map (\<lambda>r. if eval_where r query = Some True then assign r else r) s"

definition max_id :: "store \<Rightarrow> nat" where
  "max_id s = foldr (\<lambda>r m. max (order_id r) m) s 0"

definition nth_opt :: "'a list \<Rightarrow> nat \<Rightarrow> 'a option" where
  "nth_opt xs n = (if n < length xs then Some (xs ! n) else None)"

text \<open>
  Modelled from the spec: the table's schema (created by \<open>db.initialize\<close>, not part of the
  sources) sets the columns that the \<open>INSERT\<close> does not name. By the data model an
  order is created \<open>pending\<close>, and its device address and unit are absent.
\<close>

definition new_row ::
  "nat \<Rightarrow> string option \<Rightarrow> string option \<Rightarrow> string list \<Rightarrow> string list \<Rightarrow> attestation" where
  "new_row i provider wallet dataKeys dataValues =
     \<lparr> order_id = i, service_provider = provider,
       dataKey0 = nth_opt dataKeys 0, dataValue0 = nth_opt dataValues 0,
       dataKey1 = nth_opt dataKeys 1, dataValue1 = nth_opt dataValues 1,
       dataKey2 = nth_opt dataKeys 2, dataValue2 = nth_opt dataValues 2,
       dataKey3 = nth_opt dataKeys 3, dataValue3 = nth_opt dataValues 3,
       user_wallet_address = wallet, user_device_address = None, unit = None,
       status = Pending \<rparr>"

text \<open>
  \<open>db.query\<close> of the \<open>INSERT\<close>, whose column list is \<open>dataKey0 .. dataKey(n-1)\<close> and
  \<open>dataValue0 .. dataValue(n-1)\<close> for the \<open>n\<close> entries of the data: with no entry the
  statement has empty list items and does not parse, with more than four it names a
  column the table does not have. \<open>insertId\<close> is the rowid after the greatest one.
\<close>

definition db_insert ::
  "store \<Rightarrow> string option \<Rightarrow> string option \<Rightarrow> string list \<Rightarrow> string list
     \<Rightarrow> (exn + nat) \<times> store" where
  "db_insert s provider wallet dataKeys dataValues =
     (if dataKeys = [] then (Inl (SqlError ''syntax error''), s)
      else if length dataKeys > 4 then (Inl (SqlError ''no such column''), s)
      else (Inr (Suc (max_id s)),
            s @ [new_row (Suc (max_id s)) provider wallet dataKeys dataValues]))"

section \<open>The store without providers (\<open>src/start.js\<close>, class \<open>DbService\<close>)\<close>

text \<open>
  The \<open>forEach\<close> over \<open>Object.entries(data)\<close> that appends one group per entry.
\<close>

fun dataEntries_forEach :: "nat \<Rightarrow> obj \<Rightarrow> tok list \<Rightarrow> tok list" where
  "dataEntries_forEach index [] query = query"
| "dataEntries_forEach index ((key, val) # rest) query =
     dataEntries_forEach (Suc index) rest
       ((if index > 0 then query @ [AND] else query) @ [C (AnySlot key (Some (String_js val)))])"

text \<open>\<open>if (!query.endsWith('WHERE ')) query += ' AND '\<close>.\<close>

definition and_unless_empty :: "tok list \<Rightarrow> tok list" where
  "and_unless_empty query = (if query \<noteq> [] then query @ [AND] else query)"

definition build_query_pl :: "obj option \<Rightarrow> string option \<Rightarrow> int option \<Rightarrow> bool \<Rightarrow> tok list" where
  "build_query_pl data address ident excludeAttested =
     (let dataEntries = (case data of None \<Rightarrow> [] | Some d \<Rightarrow> d);
          q1 = (if length dataEntries = 0 then [C One_eq_one]
                else dataEntries_forEach 0 dataEntries []);
          q2 = (if truthy_str address
                then and_unless_empty q1 @ [C (Eq_user_wallet_address address)] else q1);
          q3 = (case ident of None \<Rightarrow> q2 | Some i \<Rightarrow> and_unless_empty q2 @ [C (Eq_id (Some i))])
      in if excludeAttested then and_unless_empty q3 @ [C Not_attested] else q3)"

text \<open>
  \<open>getAttestationOrders(filters, multiple)\<close> with
  \<open>filters = {data, address, id, excludeAttested}\<close>; \<open>data = None\<close> is a filter without
  data (\<open>typeof data\<close> is then not \<open>'object'\<close>), and \<open>id\<close> is an integer when given.
\<close>

definition getAttestationOrders_pl ::
  "validation \<Rightarrow> store \<Rightarrow> obj option \<Rightarrow> string option \<Rightarrow> int option \<Rightarrow> bool \<Rightarrow> bool
     \<Rightarrow> exn + lookup" where
  "getAttestationOrders_pl V s data address ident excludeAttested multiple =
     (if truthy_str address \<and> \<not> isWalletAddress V address
      then Inl (ErrorWithMessage ''Invalid wallet address'' [(''code'', JStr ''INVALID_DATA'')])
      else if (case ident of None \<Rightarrow> False | Some i \<Rightarrow> i \<le> 0)
      then Inl (ErrorWithMessage ''Invalid id parameter'' [(''code'', JStr ''INVALID_DATA'')])
      else if data \<noteq> None \<and> \<not> isDataObject V data
      then Inl (ErrorWithMessage ''Invalid data object''
                  [(''code'', JStr ''INVALID_DATA''), (''data'', data_val data)])
      else (case db_select s (build_query_pl data address ident excludeAttested) of
              Inl e \<Rightarrow> Inl e
            | Inr attestationRows \<Rightarrow> Inr (rows_result multiple attestationRows)))"

text \<open>
  What a function of the store returns: \<open>insertId\<close> or \<open>order.id\<close>, nothing
  (\<open>undefined\<close>), or an error object handed back with \<open>return\<close>.
\<close>

datatype ret = Id nat | Undefined | Returned exn

fun lookup_ret :: "lookup \<Rightarrow> ret" where
  "lookup_ret (Row r) = Id (order_id r)"
| "lookup_ret other = Undefined"

text \<open>
  \<open>createAttestationOrder(data, address, allowDuplicates)\<close>. The thrown
  \<open>ALREADY_EXISTS\<close> error is built from the literal
  \<open>{ code, status: order.status, ...data, unit: order.unit }\<close>.
\<close>

definition createAttestationOrder_pl ::
  "validation \<Rightarrow> store \<Rightarrow> obj option \<Rightarrow> string option \<Rightarrow> bool \<Rightarrow> (exn + ret) \<times> store" where
  "createAttestationOrder_pl V s data address allowDuplicates =
     (if \<not> isDataObject V data
      then (Inl (ErrorWithMessage ''Invalid data object''
                   [(''code'', JStr ''INVALID_DATA''), (''data'', data_val data)]), s)
      else if truthy_str address \<and> \<not> isWalletAddress V address
      then (Inl (ErrorWithMessage ''Invalid address''
                   [(''code'', JStr ''INVALID_DATA''), (''data'', data_val data),
                    (''address'', str_val address)]), s)
      else
        (case getAttestationOrders_pl V s data (if truthy_str address then address else None)
                None allowDuplicates False of
           Inl e \<Rightarrow> (Inl e, s)
         | Inr order \<Rightarrow>
             if \<not> truthy_lookup order then
               (case data of
                  None \<Rightarrow> (Inl (TypeError ''Cannot convert undefined or null to object''), s)
                | Some d \<Rightarrow>
                    (case db_insert s None (if truthy_str address then address else None)
                            (map fst d) (map (\<lambda>v. String_js v) (map snd d)) of
                       (Inl e, s') \<Rightarrow> (Inl e, s')
                     | (Inr insertId, s') \<Rightarrow> (Inr (Id insertId), s')))
             else if \<not> allowDuplicates then
               (Inl (ErrorWithMessage ''Order already exists''
                       (set_prop
                          (spread [(''code'', JStr ''ALREADY_EXISTS''),
                                   (''status'', lookup_status order)]
                             (case data of None \<Rightarrow> [] | Some d \<Rightarrow> d))
                          ''unit'' (lookup_unit order))), s)
             else (Inr (lookup_ret order), s)))"

text \<open>\<open>removeWalletAddressInAttestationOrder(data, address)\<close>.\<close>

definition removeWalletAddressInAttestationOrder_pl ::
  "validation \<Rightarrow> store \<Rightarrow> obj option \<Rightarrow> string option \<Rightarrow> (exn + unit) \<times> store" where
  "removeWalletAddressInAttestationOrder_pl V s data address =
     (if \<not> isDataObject V data
      then (Inl (ErrorWithMessage ''Invalid data object''
                   [(''code'', JStr ''INVALID_DATA''), (''data'', data_val data)]), s)
      else
        (case getAttestationOrders_pl V s data address None True False of
           Inl e \<Rightarrow> (Inl e, s)
         | Inr order \<Rightarrow>
             if truthy_lookup order then
               if \<not> truthy (lookup_user_wallet_address order)
               then (Inl (ErrorWithMessage ''User address is not found''
                            [(''code'', JStr ''ADDRESS_NOT_FOUND'')]), s)
               else if lookup_status order = JStr ''attested'' \<or> truthy (lookup_unit order)
               then (Inl (ErrorWithMessage ''Address is attested''
                            [(''code'', JStr ''ALREADY_ATTESTED'')]), s)
               else (Inr (),
                     db_update s [C (Eq_id (lookup_id order))]
                       (\<lambda>r. r\<lparr>user_wallet_address := None, status := Pending\<rparr>))
             else (Inl (ErrorWithMessage ''Order not found or already attested''
                          [(''code'', JStr ''ADDRESS_NOT_FOUND'')]), s)))"

text \<open>\<open>updateWalletAddressInAttestationOrder(data, walletAddress)\<close>.\<close>

definition updateWalletAddressInAttestationOrder_pl ::
  "validation \<Rightarrow> store \<Rightarrow> obj option \<Rightarrow> string option \<Rightarrow> (exn + unit) \<times> store" where
  "updateWalletAddressInAttestationOrder_pl V s data walletAddress =
     (if isWalletAddress V walletAddress \<and> isDataObject V data then
        (case getAttestationOrders_pl V s data None None True False of
           Inl e \<Rightarrow> (Inl e, s)
         | Inr order \<Rightarrow>
             if truthy_lookup order then
               if lookup_status order = JStr ''attested''
               then (Inl (ErrorWithMessage ''Address is already attested''
                            [(''code'', JStr ''ALREADY_ATTESTED'')]), s)
               else (Inr (),
                     db_update s [C Not_attested, AND, C (Eq_id (lookup_id order))]
                       (\<lambda>r. r\<lparr>user_wallet_address := walletAddress, status := Addressed\<rparr>))
             else (Inl (ErrorWithMessage ''Order not found''
                          [(''code'', JStr ''ORDER_NOT_FOUND'')]), s))
      else (Inl (ErrorWithMessage ''Error occurred during address update''
                   [(''code'', JStr ''INVALID_DATA'')]), s))"

text \<open>
  \<open>updateDeviceAddressInAttestationOrder(orderId, deviceAddress)\<close>; \<open>orderId\<close> is a
  number when given, truthy unless it is \<open>0\<close>.
\<close>

definition updateDeviceAddressInAttestationOrder_pl ::
  "store \<Rightarrow> int option \<Rightarrow> string option \<Rightarrow> (exn + unit) \<times> store" where
  "updateDeviceAddressInAttestationOrder_pl s orderId deviceAddress =
     (if (case orderId of None \<Rightarrow> False | Some i \<Rightarrow> i \<noteq> 0) \<and> truthy_str deviceAddress
      then (Inr (),
            db_update s [C Not_attested, AND, C (Eq_id orderId)]
              (\<lambda>r. r\<lparr>user_device_address := deviceAddress\<rparr>))
      else (Inl (ErrorWithMessage ''Error occurred during address update''
                   [(''code'', JStr ''INVALID_DATA'')]), s))"

text \<open>\<open>updateUnitAndChangeStatus(data, address, unit)\<close>.\<close>

definition updateUnitAndChangeStatus_pl ::
  "validation \<Rightarrow> store \<Rightarrow> obj option \<Rightarrow> string option \<Rightarrow> string option
     \<Rightarrow> (exn + unit) \<times> store" where
  "updateUnitAndChangeStatus_pl V s data address unit_id =
     (if isUnit V unit_id \<and> isWalletAddress V address \<and> isDataObject V data then
        (case getAttestationOrders_pl V s data address None True False of
           Inl e \<Rightarrow> (Inl e, s)
         | Inr order \<Rightarrow>
             if truthy_lookup order
             then (Inr (),
                   db_update s [C (Eq_id (lookup_id order)), AND, C (Eq_user_wallet_address address)]
                     (\<lambda>r. r\<lparr>unit := unit_id, status := Attested\<rparr>))
             else (Inl (ErrorWithMessage ''Order not found''
                          [(''code'', JStr ''ORDER_NOT_FOUND'')]), s))
      else (Inl (ErrorWithMessage ''Invalid  data''
                   [(''code'', JStr ''INVALID_DATA''), (''data'', data_val data)]), s))"

section \<open>The provider-scoped store (\<open>src/db/DbService.js\<close>)\<close>

text \<open>
  The query parameters of the provider-scoped lookup are the entries' values as they are,
  not through \<open>String\<close>. The driver binds a string as text, a number that is a 32-bit
  integer as an integer, any other number as a float, and a boolean as the integer \<open>0\<close>
  or \<open>1\<close>; the comparison with a text column turns an integer into its decimal digits
  and a float into its digits followed by \<open>.0\<close>. \<open>null\<close> and \<open>undefined\<close> are bound
  as \<open>NULL\<close>, an object as its string. So a value is compared as the string that the
  \<open>INSERT\<close> stored for it (\<open>String(v)\<close>) when it is a string or a 32-bit integer, and
  as another string, or as \<open>NULL\<close>, otherwise.
\<close>

fun sql_param :: "jsval \<Rightarrow> string option" where
  "sql_param JUndefined = None"
| "sql_param JNull = None"
| "sql_param (JBool b) = Some (if b then ''1'' else ''0'')"
| "sql_param (JNum i) =
     (if - 2147483648 \<le> i \<and> i \<le> 2147483647 then Some (String_num i)
      else Some (String_num i @ ''.0''))"
| "sql_param (JStr s) = Some s"
| "sql_param (JObject ps) = Some ''[object Object]''"

text \<open>
  The text one entry appends:
  \<open>AND (dataKey0 = ? AND dataValue0 = ?) OR (dataKey1 = ? ...) OR (...) OR (dataKey3 = ? ...)\<close>,
  with no parentheses around the four alternatives.
\<close>

definition entry_toks_sp :: "string \<times> jsval \<Rightarrow> tok list" where
  "entry_toks_sp e =
     [AND, C (Slot 0 (fst e) (sql_param (snd e))), OR, C (Slot 1 (fst e) (sql_param (snd e))),
      OR, C (Slot 2 (fst e) (sql_param (snd e))), OR, C (Slot 3 (fst e) (sql_param (snd e)))]"

definition build_query_sp :: "string option \<Rightarrow> obj \<Rightarrow> string option \<Rightarrow> bool \<Rightarrow> tok list" where
  "build_query_sp serviceProvider data address excludeAttested =
     [C (Eq_service_provider serviceProvider)]
     @ concat (map entry_toks_sp data)
     @ (if truthy_str address then [AND, C (Eq_user_wallet_address address)] else [])
     @ (if excludeAttested then [AND, C Not_attested] else [])"

text \<open>
  \<open>getAttestationOrders(filters, multiple)\<close> with
  \<open>filters = {serviceProvider, data, address, excludeAttested}\<close>. Data that fail the
  validation make it return the error object.
\<close>

definition getAttestationOrders_sp ::
  "validation \<Rightarrow> store \<Rightarrow> string option \<Rightarrow> obj option \<Rightarrow> string option \<Rightarrow> bool \<Rightarrow> bool
     \<Rightarrow> exn + lookup" where
  "getAttestationOrders_sp V s serviceProvider data address excludeAttested multiple =
     (if \<not> isServiceProvider V serviceProvider
      then Inl (ErrorWithMessage ''Invalid service provider'' [(''code'', JStr ''INVALID_DATA'')])
      else if truthy_str address \<and> \<not> isWalletAddress V address
      then Inl (ErrorWithMessage ''Invalid wallet address'' [(''code'', JStr ''INVALID_DATA'')])
      else if \<not> isDataObject V data
      then Inr (ErrorValue (ErrorWithMessage ''Invalid data object''
                  [(''code'', JStr ''INVALID_DATA''), (''data'', data_val data)]))
      else (case data of
              None \<Rightarrow> Inl (TypeError ''Cannot convert undefined or null to object'')
            | Some d \<Rightarrow>
                (case db_select s (build_query_sp serviceProvider d address excludeAttested) of
                   Inl e \<Rightarrow> Inl e
                 | Inr attestationRows \<Rightarrow> Inr (rows_result multiple attestationRows))))"

text \<open>
  \<open>createAttestationOrder(serviceProvider, data, allowDuplicates)\<close>. The object literal
  of its \<open>ALREADY_EXISTS\<close> error reads \<open>username\<close> and \<open>userId\<close>, which nothing in the
  module binds: evaluating it throws a \<open>ReferenceError\<close>.
\<close>

definition createAttestationOrder_sp ::
  "validation \<Rightarrow> store \<Rightarrow> string option \<Rightarrow> obj option \<Rightarrow> bool \<Rightarrow> (exn + ret) \<times> store" where
  "createAttestationOrder_sp V s serviceProvider data allowDuplicates =
     (if \<not> isDataObject V data
      then (Inr (Returned (ErrorWithMessage ''Invalid data object''
                   [(''code'', JStr ''INVALID_DATA''), (''data'', data_val data)])), s)
      else
        (case getAttestationOrders_sp V s serviceProvider data None allowDuplicates False of
           Inl e \<Rightarrow> (Inl e, s)
         | Inr order \<Rightarrow>
             if \<not> truthy_lookup order then
               (case data of
                  None \<Rightarrow> (Inl (TypeError ''Cannot convert undefined or null to object''), s)
                | Some d \<Rightarrow>
                    (case db_insert s serviceProvider None
                            (map fst d) (map (\<lambda>v. String_js v) (map snd d)) of
                       (Inl e, s') \<Rightarrow> (Inl e, s')
                     | (Inr insertId, s') \<Rightarrow> (Inr (Id insertId), s')))
             else if \<not> allowDuplicates then
               (Inl (ReferenceError ''username is not defined''), s)
             else (Inr (lookup_ret order), s)))"

text \<open>\<open>removeWalletAddressInAttestationOrder(serviceProvider, data, address)\<close>.\<close>

definition removeWalletAddressInAttestationOrder_sp ::
  "validation \<Rightarrow> store \<Rightarrow> string option \<Rightarrow> obj option \<Rightarrow> string option
     \<Rightarrow> (exn + ret) \<times> store" where
  "removeWalletAddressInAttestationOrder_sp V s serviceProvider data address =
     (if \<not> isServiceProvider V serviceProvider
      then (Inl (ErrorWithMessage ''Invalid service provider''
                   [(''code'', JStr ''INVALID_DATA'')]), s)
      else if \<not> isDataObject V data
      then (Inr (Returned (ErrorWithMessage ''Invalid data object''
                   [(''code'', JStr ''INVALID_DATA''), (''data'', data_val data)])), s)
      else
        (case getAttestationOrders_sp V s serviceProvider data address True False of
           Inl e \<Rightarrow> (Inl e, s)
         | Inr order \<Rightarrow>
             if truthy_lookup order then
               if \<not> truthy (lookup_user_wallet_address order)
               then (Inl (ErrorWithMessage ''User address is not found''
                            [(''code'', JStr ''ADDRESS_NOT_FOUND'')]), s)
               else if lookup_status order \<noteq> JStr ''addressed''
               then (Inl (ErrorWithMessage ''Address is attested''
                            [(''code'', JStr ''ALREADY_ATTESTED'')]), s)
               else (Inr Undefined,
                     db_update s
                       [C (Eq_service_provider serviceProvider), AND, C (Eq_id (lookup_id order))]
                       (\<lambda>r. r\<lparr>user_wallet_address := None, status := Pending\<rparr>))
             else (Inl (ErrorWithMessage ''Order not found or already attested''
                          [(''code'', JStr ''ADDRESS_NOT_FOUND'')]), s)))"

text \<open>\<open>updateWalletAddressInAttestationOrder(serviceProvider, data, walletAddress)\<close>.\<close>

definition updateWalletAddressInAttestationOrder_sp ::
  "validation \<Rightarrow> store \<Rightarrow> string option \<Rightarrow> obj option \<Rightarrow> string option
     \<Rightarrow> (exn + unit) \<times> store" where
  "updateWalletAddressInAttestationOrder_sp V s serviceProvider data walletAddress =
     (if isServiceProvider V serviceProvider \<and> isWalletAddress V walletAddress
         \<and> isDataObject V data then
        (case getAttestationOrders_sp V s serviceProvider data None True False of
           Inl e \<Rightarrow> (Inl e, s)
         | Inr order \<Rightarrow>
             if truthy_lookup order then
               if lookup_status order = JStr ''attested''
               then (Inl (ErrorWithMessage ''Address is already attested''
                            [(''code'', JStr ''ALREADY_ATTESTED'')]), s)
               else (Inr (),
                     db_update s
                       [C (Eq_service_provider serviceProvider), AND, C Not_attested,
                        AND, C (Eq_id (lookup_id order))]
                       (\<lambda>r. r\<lparr>user_wallet_address := walletAddress, status := Addressed\<rparr>))
             else (Inl (ErrorWithMessage ''Order not found''
                          [(''code'', JStr ''ORDER_NOT_FOUND'')]), s))
      else (Inl (ErrorWithMessage ''Error occurred during address update''
                   [(''code'', JStr ''INVALID_DATA'')]), s))"

text \<open>\<open>updateUnitAndChangeStatus(serviceProvider, data, address, unit)\<close>.\<close>

definition updateUnitAndChangeStatus_sp ::
  "validation \<Rightarrow> store \<Rightarrow> string option \<Rightarrow> obj option \<Rightarrow> string option \<Rightarrow> string option
     \<Rightarrow> (exn + unit) \<times> store" where
  "updateUnitAndChangeStatus_sp V s serviceProvider data address unit_id =
     (if isServiceProvider V serviceProvider \<and> isUnit V unit_id \<and> isWalletAddress V address
         \<and> isDataObject V data then
        (case getAttestationOrders_sp V s serviceProvider data address True False of
           Inl e \<Rightarrow> (Inl e, s)
         | Inr order \<Rightarrow>
             if truthy_lookup order
             then (Inr (),
                   db_update s
                     [C (Eq_service_provider serviceProvider), AND, C (Eq_id (lookup_id order)),
                      AND, C (Eq_user_wallet_address address)]
                     (\<lambda>r. r\<lparr>unit := unit_id, status := Attested\<rparr>))
             else (Inl (ErrorWithMessage ''Order not found''
                          [(''code'', JStr ''ORDER_NOT_FOUND'')]), s))
      else (Inl (ErrorWithMessage ''Invalid  data''
                   [(''code'', JStr ''INVALID_DATA''), (''data'', data_val data)]), s))"

section \<open>The verification handler (\<open>walletHandlers/verifyHandler\<close>)\<close>

subsection \<open>String methods\<close>

fun startsWith :: "string \<Rightarrow> string \<Rightarrow> bool" where
  "startsWith s [] = True"
| "startsWith [] (p # ps) = False"
| "startsWith (c # cs) (p # ps) = (c = p \<and> startsWith cs ps)"

text \<open>\<open>s.includes(p)\<close>.\<close>

fun includes_str :: "string \<Rightarrow> string \<Rightarrow> bool" where
  "includes_str [] p = (p = [])"
| "includes_str (c # cs) p = (startsWith (c # cs) p \<or> includes_str cs p)"

text \<open>\<open>s.replace(p, t)\<close> with a string pattern: the first occurrence only.\<close>

fun replace :: "string \<Rightarrow> string \<Rightarrow> string \<Rightarrow> string" where
  "replace [] p t = (if p = [] then t else [])"
| "replace (c # cs) p t =
     (if startsWith (c # cs) p then t @ drop (length p) (c # cs) else c # replace cs p t)"

text \<open>\<open>s.trim()\<close>, on the white space of ASCII.\<close>

definition isSpace :: "char \<Rightarrow> bool" where
  "isSpace c = (c = CHR '' '' \<or> c = CHR 0x09 \<or> c = CHR 0x0A \<or> c = CHR 0x0B
                \<or> c = CHR 0x0C \<or> c = CHR 0x0D)"

definition trim :: "string \<Rightarrow> string" where
  "trim s = rev (dropWhile isSpace (rev (dropWhile isSpace s)))"

subsection \<open>Messages, events and collaborators\<close>

text \<open>
  The texts of \<open>dictionary\<close> (not part of the sources) are opaque; \<open>Literal\<close> is a text
  the handler writes out itself.
\<close>

datatype reply =
    INVALID_FORMAT_SIGNED_MESSAGE
  | VALIDATION_FAILED
  | MISMATCH_ADDRESS
  | MISMATCH_DATA
  | CANNOT_FIND_ORDER
  | ALREADY_ATTESTED string string obj
  | Literal string

datatype effect =
    sendMessageToDevice string reply
  | emit_ATTESTATION_KIT_ATTESTED jsval jsval string obj string

text \<open>
  The two helpers the handler calls that are not part of the sources are parameters:
  either can throw.
\<close>

record collaborators =
  transformDataValuesToObject :: "lookup \<Rightarrow> exn + obj"
  postAttestationProfile :: "jsval \<Rightarrow> jsval \<Rightarrow> obj \<Rightarrow> exn + string"

text \<open>
  lodash's \<open>isEqual\<close> on two flat objects: the same properties with the same values, in
  any order.
\<close>

definition isEqual :: "obj \<Rightarrow> obj \<Rightarrow> bool" where
  "isEqual a b = (set a = set b)"

text \<open>
  The inbound text after the library calls that decode it: the regular expression found
  no \<open>(signed-message:...)\<close> block; or the block is not JSON; or it is an envelope, with
  the verdict of ocore's \<open>validateSignedMessage\<close> (\<open>validation_err\<close> when it reports an
  error), the addresses of \<open>authors\<close> (\<open>None\<close> when the envelope has no such property)
  and \<open>JSON.parse(signed_message.trim())\<close>: a JSON object, or \<open>None\<close> when that
  expression throws.
\<close>

datatype inbound =
    NoSignedMessage
  | NotJson
  | Envelope (validation_err: bool) (authors: "string list option") (payload: "obj option")

text \<open>A value passed where the store expects a string.\<close>

fun str_arg :: "jsval \<Rightarrow> string option" where
  "str_arg (JStr s) = Some s"
| "str_arg other = None"

subsection \<open>The handler\<close>

text \<open>
  Lines 86 to 100: the success notice, the issuance call and the write, inside their own
  \<open>try\<close>.
\<close>

definition attest ::
  "validation \<Rightarrow> collaborators \<Rightarrow> store \<Rightarrow> string \<Rightarrow> lookup \<Rightarrow> jsval \<Rightarrow> obj
     \<Rightarrow> effect list \<times> store" where
  "attest V E s from_address order address data =
     (let sent = [sendMessageToDevice from_address
                    (Literal ''Your data was attested successfully! We will send you unit later.'')]
      in case postAttestationProfile E (lookup_service_provider order) address data of
           Inl err \<Rightarrow>
             (sent @ [sendMessageToDevice from_address (Literal ''Unknown error! Please try again.'')], s)
         | Inr unit_id \<Rightarrow>
             (case updateUnitAndChangeStatus_sp V s (str_arg (get_prop data ''provider''))
                     (Some data) (str_arg address) (Some unit_id) of
                (Inl err, s') \<Rightarrow>
                  (sent @ [sendMessageToDevice from_address
                             (Literal ''Unknown error! Please try again.'')], s')
              | (Inr u, s') \<Rightarrow>
                  (sent @ [emit_ATTESTATION_KIT_ATTESTED (get_prop data ''provider'') address
                             unit_id data from_address,
                           sendMessageToDevice from_address
                             (Literal (''Attestation unit: '' @ unit_id))], s')))"

text \<open>
  Lines 79 to 107: what the handler does with the result of the lookup. The argument of
  \<open>dictionary.common.ALREADY_ATTESTED\<close> reads \<open>username\<close> and \<open>id\<close>, which nothing in
  the module binds: the \<open>ReferenceError\<close> is thrown before any message is sent and the
  outer \<open>catch\<close> answers it, like every other exception of the outer \<open>try\<close>, with
  \<open>INVALID_FORMAT_SIGNED_MESSAGE\<close>.
\<close>

definition on_order ::
  "validation \<Rightarrow> collaborators \<Rightarrow> store \<Rightarrow> string \<Rightarrow> lookup \<Rightarrow> jsval \<Rightarrow> obj
     \<Rightarrow> effect list \<times> store" where
  "on_order V E s from_address order address data =
     (if truthy_lookup order then
        if lookup_status order = JStr ''attested''
        then ([sendMessageToDevice from_address INVALID_FORMAT_SIGNED_MESSAGE], s)
        else (case transformDataValuesToObject E order of
                Inl err \<Rightarrow> ([sendMessageToDevice from_address INVALID_FORMAT_SIGNED_MESSAGE], s)
              | Inr stored \<Rightarrow>
                  if isEqual stored data \<and> get_prop data ''provider'' = lookup_service_provider order
                  then attest V E s from_address order address data
                  else ([sendMessageToDevice from_address MISMATCH_DATA], s))
      else ([sendMessageToDevice from_address CANNOT_FIND_ORDER], s))"

text \<open>Lines 73 to 110: the address check and the lookup.\<close>

definition check_address ::
  "validation \<Rightarrow> collaborators \<Rightarrow> string \<Rightarrow> store \<Rightarrow> string \<Rightarrow> string \<Rightarrow> jsval \<Rightarrow> obj
     \<Rightarrow> effect list \<times> store" where
  "check_address V E defaultServiceProvider s from_address walletAddress address data =
     (if \<not> truthy address \<or> JStr walletAddress = address then
        (case getAttestationOrders_sp V s (Some defaultServiceProvider) (Some data)
                (str_arg address) False False of
           Inl err \<Rightarrow> ([sendMessageToDevice from_address INVALID_FORMAT_SIGNED_MESSAGE], s)
         | Inr order \<Rightarrow> on_order V E s from_address order address data)
      else ([sendMessageToDevice from_address MISMATCH_ADDRESS], s))"

text \<open>
  Lines 55 to 114: the body of the outer \<open>try\<close>. \<open>{ message, ...data } = signedData\<close>
  splits the payload; a truthy \<open>message\<close> that is not a string has no \<open>includes\<close>
  method, and calling it throws.
\<close>

definition parse_claim ::
  "validation \<Rightarrow> collaborators \<Rightarrow> string \<Rightarrow> store \<Rightarrow> string \<Rightarrow> string \<Rightarrow> obj option
     \<Rightarrow> effect list \<times> store" where
  "parse_claim V E defaultServiceProvider s from_address walletAddress parsed =
     (case parsed of
        None \<Rightarrow> ([sendMessageToDevice from_address INVALID_FORMAT_SIGNED_MESSAGE], s)
      | Some signedData \<Rightarrow>
          (let message = get_prop signedData ''message'';
               data = filter (\<lambda>p. fst p \<noteq> ''message'') signedData
           in if truthy message then
                (case message of
                   JStr m \<Rightarrow>
                     if includes_str m ''I own the address:'' then
                       (let address = trim (replace m ''I own the address: '' [])
                        in if \<not> isWalletAddress V (Some address)
                           then ([sendMessageToDevice from_address INVALID_FORMAT_SIGNED_MESSAGE], s)
                           else check_address V E defaultServiceProvider s from_address
                                  walletAddress (JStr address) data)
                     else check_address V E defaultServiceProvider s from_address walletAddress
                            (get_prop data ''address'') data
                 | other \<Rightarrow> ([sendMessageToDevice from_address INVALID_FORMAT_SIGNED_MESSAGE], s))
              else check_address V E defaultServiceProvider s from_address walletAddress
                     (get_prop data ''address'') data))"

text \<open>
  The handler. \<open>conf_serviceProvider\<close> is \<open>conf.serviceProvider\<close>; the first author's
  address is the signer's.
\<close>

definition verifyHandler ::
  "validation \<Rightarrow> collaborators \<Rightarrow> string option \<Rightarrow> store \<Rightarrow> string \<Rightarrow> inbound
     \<Rightarrow> effect list \<times> store" where
  "verifyHandler V E conf_serviceProvider s from_address msg =
     (let defaultServiceProvider =
            (if truthy_str conf_serviceProvider then the conf_serviceProvider else ''default'')
      in case msg of
           NoSignedMessage \<Rightarrow> ([sendMessageToDevice from_address INVALID_FORMAT_SIGNED_MESSAGE], s)
         | NotJson \<Rightarrow>
             ([sendMessageToDevice from_address (Literal ''Unknown error! Please try again.'')], s)
         | Envelope err auths parsed \<Rightarrow>
             if err then ([sendMessageToDevice from_address VALIDATION_FAILED], s)
             else (case auths of
                     None \<Rightarrow> ([sendMessageToDevice from_address VALIDATION_FAILED], s)
                   | Some [] \<Rightarrow> ([sendMessageToDevice from_address VALIDATION_FAILED], s)
                   | Some (walletAddress # others) \<Rightarrow>
                       parse_claim V E defaultServiceProvider s from_address walletAddress parsed))"

section \<open>Sample collaborators\<close>

text \<open>
  Modelled from the spec: \<open>utils/Validation\<close> is not part of the sources. This instance,
  on which the functions can be run, follows the data model and the collaborator
  contracts: a data object has at most four pairs with unique keys, an address is a token
  of the chain's address format (32 characters), a provider and a unit are non-empty
  strings. \<open>strict_validation\<close> is the same but for the empty data object, which it
  rejects.
\<close>

definition sample_validation :: validation where
  "sample_validation =
     \<lparr> isDataObject = (\<lambda>d. case d of None \<Rightarrow> False
                            | Some e \<Rightarrow> length e \<le> 4 \<and> distinct (map fst e)),
       isWalletAddress = (\<lambda>a. case a of None \<Rightarrow> False | Some x \<Rightarrow> length x = 32),
       isServiceProvider = truthy_str,
       isUnit = truthy_str \<rparr>"

definition strict_validation :: validation where
  "strict_validation =
     sample_validation
       \<lparr> isDataObject := (\<lambda>d. case d of None \<Rightarrow> False
                               | Some e \<Rightarrow> e \<noteq> [] \<and> length e \<le> 4 \<and> distinct (map fst e)) \<rparr>"

text \<open>
  A reading of the stored slots as an object, and an issuance service that always
  answers with the same unit.
\<close>

definition slot_entries :: "attestation \<Rightarrow> obj" where
  "slot_entries r =
     concat (map (\<lambda>p. case p of (Some k, Some v) \<Rightarrow> [(k, JStr v)] | other \<Rightarrow> [])
       [(dataKey0 r, dataValue0 r), (dataKey1 r, dataValue1 r),
        (dataKey2 r, dataValue2 r), (dataKey3 r, dataValue3 r)])"

definition sample_collaborators :: collaborators where
  "sample_collaborators =
     \<lparr> transformDataValuesToObject =
         (\<lambda>order. case order of Row r \<Rightarrow> Inr (slot_entries r) | other \<Rightarrow> Inr []),
       postAttestationProfile = (\<lambda>provider address data. Inr ''unit1'') \<rparr>"

section \<open>Notions used to state the properties\<close>

text \<open>A chain of conditions, each appended with \<open>AND\<close>.\<close>

definition and_chain :: "cond list \<Rightarrow> tok list" where
  "and_chain cs = concat (map (\<lambda>c. [AND, C c]) cs)"

text \<open>The four slots of a row, as pairs of a key and a value column.\<close>

definition slots :: "attestation \<Rightarrow> (string option \<times> string option) list" where
  "slots r = [(dataKey0 r, dataValue0 r), (dataKey1 r, dataValue1 r),
              (dataKey2 r, dataValue2 r), (dataKey3 r, dataValue3 r)]"

definition entry_cond :: "string \<times> jsval \<Rightarrow> cond" where
  "entry_cond e = AnySlot (fst e) (Some (String_js (snd e)))"

text \<open>The conditions of the query of the store without providers, in order.\<close>

definition conds_pl :: "obj option \<Rightarrow> string option \<Rightarrow> int option \<Rightarrow> bool \<Rightarrow> cond list" where
  "conds_pl data address ident excludeAttested =
     (if (case data of None \<Rightarrow> [] | Some d \<Rightarrow> d) = [] then [One_eq_one]
      else map entry_cond (case data of None \<Rightarrow> [] | Some d \<Rightarrow> d))
     @ (if truthy_str address then [Eq_user_wallet_address address] else [])
     @ (case ident of None \<Rightarrow> [] | Some i \<Rightarrow> [Eq_id (Some i)])
     @ (if excludeAttested then [Not_attested] else [])"

text \<open>
  What it means for a row to match a filter of the store without providers: every
  requested pair, its value as a string, is held by some slot, and the row passes the
  address, id and status filters that are set.
\<close>

definition matches_pl :: "obj \<Rightarrow> string option \<Rightarrow> int option \<Rightarrow> bool \<Rightarrow> attestation \<Rightarrow> bool" where
  "matches_pl D address ident excludeAttested r =
     ((\<forall>e \<in> set D. (Some (fst e), Some (String_js (snd e))) \<in> set (slots r))
      \<and> (truthy_str address \<longrightarrow> user_wallet_address r = address)
      \<and> (case ident of None \<Rightarrow> True | Some i \<Rightarrow> int (order_id r) = i)
      \<and> (excludeAttested \<longrightarrow> status r \<noteq> Attested))"

text \<open>The order of the spec's end-to-end example, as created.\<close>

definition alice_order :: attestation where
  "alice_order =
     \<lparr> order_id = 1, service_provider = Some ''default'',
       dataKey0 = Some ''username'', dataValue0 = Some ''alice'',
       dataKey1 = Some ''userId'', dataValue1 = Some ''42'',
       dataKey2 = None, dataValue2 = None, dataKey3 = None, dataValue3 = None,
       user_wallet_address = None, user_device_address = None, unit = None,
       status = Pending \<rparr>"

text \<open>Two addresses, and the order of the example once it is attested to the first.\<close>

definition ADDR1 :: string where
  "ADDR1 = ''ADDR1ADDR1ADDR1ADDR1ADDR1ADDR1AD''"

definition ADDR2 :: string where
  "ADDR2 = ''ADDR2ADDR2ADDR2ADDR2ADDR2ADDR2AD''"

definition attested_order :: attestation where
  "attested_order =
     alice_order\<lparr>user_wallet_address := Some ADDR1, unit := Some ''unit1'', status := Attested\<rparr>"

text \<open>The error object built for data that fail the validation.\<close>

definition invalid_data_error :: "obj option \<Rightarrow> exn" where
  "invalid_data_error data =
     ErrorWithMessage ''Invalid data object''
       [(''code'', JStr ''INVALID_DATA''), (''data'', data_val data)]"

text \<open>
  The claim of a signed payload, as lines 59 to 64 of the handler read it: the data are
  the payload without its \<open>message\<close>; the claimed address is the one after the ownership
  phrase when the message has the phrase, else the data's \<open>address\<close>. The claim parses
  when reading it sends no reply: the message is a string or falsy, and the address after
  the phrase is a valid one.
\<close>

definition claim_data :: "obj \<Rightarrow> obj" where
  "claim_data signedData = filter (\<lambda>p. fst p \<noteq> ''message'') signedData"

definition claimed_address :: "obj \<Rightarrow> jsval" where
  "claimed_address signedData =
     (case get_prop signedData ''message'' of
        JStr m \<Rightarrow>
          if includes_str m ''I own the address:''
          then JStr (trim (replace m ''I own the address: '' []))
          else get_prop (claim_data signedData) ''address''
      | other \<Rightarrow> get_prop (claim_data signedData) ''address'')"

definition claim_parses :: "validation \<Rightarrow> obj \<Rightarrow> bool" where
  "claim_parses V signedData =
     (case get_prop signedData ''message'' of
        JStr m \<Rightarrow>
          includes_str m ''I own the address:''
            \<longrightarrow> isWalletAddress V (Some (trim (replace m ''I own the address: '' [])))
      | other \<Rightarrow> \<not> truthy other)"

text \<open>
  The replies that end a verification without finalizing, and the frame property of a
  run of the handler from store \<open>s\<close>: a run that sends one of them leaves the store as
  it was, and a run that changes the store sends the unit of the attestation.
\<close>

definition failure_replies :: "reply set" where
  "failure_replies =
     {INVALID_FORMAT_SIGNED_MESSAGE, VALIDATION_FAILED, MISMATCH_ADDRESS, MISMATCH_DATA,
      CANNOT_FIND_ORDER}"

definition only_finalize_writes :: "store \<Rightarrow> string \<Rightarrow> effect list \<times> store \<Rightarrow> bool" where
  "only_finalize_writes s from_address res =
     ((\<forall>t \<in> failure_replies. sendMessageToDevice from_address t \<in> set (fst res) \<longrightarrow> snd res = s)
      \<and> (snd res \<noteq> s \<longrightarrow>
            (\<exists>u. sendMessageToDevice from_address (Literal (''Attestation unit: '' @ u))
                    \<in> set (fst res))))"

text \<open>The two errors of the lifecycle functions for an order they do not find.\<close>

definition order_not_found :: exn where
  "order_not_found = ErrorWithMessage ''Order not found'' [(''code'', JStr ''ORDER_NOT_FOUND'')]"

definition address_not_found :: exn where
  "address_not_found =
     ErrorWithMessage ''Order not found or already attested'' [(''code'', JStr ''ADDRESS_NOT_FOUND'')]"

text \<open>
  The attested orders of a store are kept in a later store: the later one has a row at
  every position of the earlier one, and a row that was attested is the same row there,
  column by column.
\<close>

definition attested_kept :: "store \<Rightarrow> store \<Rightarrow> bool" where
  "attested_kept s s' =
     (length s \<le> length s' \<and> (\<forall>i < length s. status (s ! i) = Attested \<longrightarrow> s' ! i = s ! i))"

text \<open>
  The operations of the store without providers, under the names the spec gives them, and
  the store that a call leaves, whether it returns or throws.
\<close>

datatype operation =
    createOrder "obj option" "string option" bool
  | bindAddress "obj option" "string option"
  | unbindAddress "obj option" "string option"
  | finalize "obj option" "string option" "string option"
  | rebindDeviceAddress "int option" "string option"

fun run :: "validation \<Rightarrow> store \<Rightarrow> operation \<Rightarrow> store" where
  "run V s (createOrder data address allowDuplicates) =
     snd (createAttestationOrder_pl V s data address allowDuplicates)"
| "run V s (bindAddress data walletAddress) =
     snd (updateWalletAddressInAttestationOrder_pl V s data walletAddress)"
| "run V s (unbindAddress data address) =
     snd (removeWalletAddressInAttestationOrder_pl V s data address)"
| "run V s (finalize data address unit_id) =
     snd (updateUnitAndChangeStatus_pl V s data address unit_id)"
| "run V s (rebindDeviceAddress orderId deviceAddress) =
     snd (updateDeviceAddressInAttestationOrder_pl s orderId deviceAddress)"

text \<open>
  An order of provider \<open>default\<close> that stores the provider among its attributes, bound to
  \<open>ADDR1\<close>.
\<close>

definition bound_order :: attestation where
  "bound_order =
     \<lparr> order_id = 1, service_provider = Some ''default'',
       dataKey0 = Some ''username'', dataValue0 = Some ''alice'',
       dataKey1 = Some ''provider'', dataValue1 = Some ''default'',
       dataKey2 = None, dataValue2 = None, dataKey3 = None, dataValue3 = None,
       user_wallet_address = Some ADDR1, user_device_address = None, unit = None,
       status = Addressed \<rparr>"

section \<open>Properties\<close>

subsection \<open>SQL conditions and the query of the store without providers\<close>

lemma sql_and_True [simp]: "sql_and a b = Some True \<longleftrightarrow> a = Some True \<and> b = Some True"
  by (auto simp: sql_and_def)

lemma sql_or_True [simp]: "sql_or a b = Some True \<longleftrightarrow> a = Some True \<or> b = Some True"
  by (auto simp: sql_or_def)

lemma sql_eq_True [simp]: "sql_eq a (Some y) = Some True \<longleftrightarrow> a = Some y"
  by (auto simp: sql_eq_def split: option.splits)

lemma and_chain_simps [simp]:
  "and_chain [] = []" "and_chain (c # cs) = AND # C c # and_chain cs"
  "and_chain (cs @ ds) = and_chain cs @ and_chain ds"
  by (simp_all add: and_chain_def)

lemma where_value_and_chain:
  "where_value r cur (and_chain cs) = Some True \<longleftrightarrow>
     cur = Some True \<and> (\<forall>c \<in> set cs. eval_cond r c = Some True)"
  by (induction cs arbitrary: cur) auto

lemma well_formed_tail_and_chain [simp]: "well_formed_tail (and_chain cs)"
  by (induction cs) auto

lemma forEach_Suc:
  "dataEntries_forEach (Suc i) es (C c0 # and_chain cs) = C c0 # and_chain (cs @ map entry_cond es)"
proof (induction es arbitrary: i cs)
  case Nil
  then show ?case by simp
next
  case (Cons e es)
  obtain k v where e: "e = (k, v)" by (cases e)
  have "dataEntries_forEach (Suc i) (e # es) (C c0 # and_chain cs)
        = dataEntries_forEach (Suc (Suc i)) es (C c0 # and_chain (cs @ [entry_cond e]))"
    by (simp add: e entry_cond_def)
  then show ?case using Cons.IH [of "Suc i" "cs @ [entry_cond e]"] by simp
qed

lemma forEach_0:
  "dataEntries_forEach 0 (e # es) [] = C (entry_cond e) # and_chain (map entry_cond es)"
proof -
  obtain k v where e: "e = (k, v)" by (cases e)
  have "dataEntries_forEach 0 (e # es) [] = dataEntries_forEach (Suc 0) es (C (entry_cond e) # and_chain [])"
    by (simp add: e entry_cond_def)
  then show ?thesis using forEach_Suc [of 0 es "entry_cond e" "[]"] by simp
qed

lemma conds_pl_nonempty: "conds_pl data address ident ex \<noteq> []"
  by (auto simp: conds_pl_def split: option.splits list.splits)

lemma build_query_pl_form:
  "build_query_pl data address ident ex
     = C (hd (conds_pl data address ident ex)) # and_chain (tl (conds_pl data address ident ex))"
proof -
  have q1: "(if length dataEntries = 0 then [C One_eq_one] else dataEntries_forEach 0 dataEntries [])
            = C (hd (if dataEntries = [] then [One_eq_one] else map entry_cond dataEntries))
              # and_chain (tl (if dataEntries = [] then [One_eq_one] else map entry_cond dataEntries))"
    for dataEntries
    by (cases dataEntries) (simp_all add: forEach_0)
  show ?thesis
    unfolding build_query_pl_def Let_def q1 and_unless_empty_def conds_pl_def
    by (auto split: option.splits list.splits)
qed

lemma eval_where_pl:
  "eval_where r (build_query_pl data address ident ex) = Some True \<longleftrightarrow>
     (\<forall>c \<in> set (conds_pl data address ident ex). eval_cond r c = Some True)"
proof -
  obtain c cs where cs: "conds_pl data address ident ex = c # cs"
    using conds_pl_nonempty by (cases "conds_pl data address ident ex") auto
  show ?thesis by (simp add: build_query_pl_form cs where_value_and_chain)
qed

lemma well_formed_pl: "well_formed (build_query_pl data address ident ex)"
  by (simp add: build_query_pl_form)

lemma eval_AnySlot:
  "eval_cond r (AnySlot k (Some v)) = Some True \<longleftrightarrow> (Some k, Some v) \<in> set (slots r)"
  by (auto simp: slot_test_def slots_def dataKey_def dataValue_def)

lemma sql_eq_Some_True [simp]: "sql_eq (Some x) (Some y) = Some True \<longleftrightarrow> x = y"
  by (simp add: sql_eq_def)

lemma conds_pl_matches:
  "(\<forall>c \<in> set (conds_pl data address ident ex). eval_cond r c = Some True)
     \<longleftrightarrow> matches_pl (case data of None \<Rightarrow> [] | Some d \<Rightarrow> d) address ident ex r"
proof -
  have ent: "(\<forall>c \<in> set (if D = [] then [One_eq_one] else map entry_cond D). eval_cond r c = Some True)
        \<longleftrightarrow> (\<forall>e \<in> set D. (Some (fst e), Some (String_js (snd e))) \<in> set (slots r))" for D
    by (cases D) (simp_all add: entry_cond_def eval_AnySlot del: eval_cond.simps(3))
  have addr: "truthy_str address \<Longrightarrow>
        (sql_eq (user_wallet_address r) address = Some True) = (user_wallet_address r = address)"
    by (cases address) (auto simp: truthy_str_def)
  show ?thesis
    unfolding conds_pl_def matches_pl_def
    using ent [of "case data of None \<Rightarrow> [] | Some d \<Rightarrow> d"]
    by (auto simp: addr ball_Un split: option.splits)
qed

lemma select_pl:
  "db_select s (build_query_pl data address ident ex)
     = Inr (filter (matches_pl (case data of None \<Rightarrow> [] | Some d \<Rightarrow> d) address ident ex) s)"
proof -
  have "filter (\<lambda>r. eval_where r (build_query_pl data address ident ex) = Some True) s
          = filter (matches_pl (case data of None \<Rightarrow> [] | Some d \<Rightarrow> d) address ident ex) s"
    by (rule filter_cong) (simp_all add: eval_where_pl conds_pl_matches)
  then show ?thesis by (simp add: db_select_def well_formed_pl)
qed

lemma getAttestationOrders_pl_result:
  assumes "getAttestationOrders_pl V s data address ident ex multiple = Inr res"
  shows "res = rows_result multiple
                 (filter (matches_pl (case data of None \<Rightarrow> [] | Some d \<Rightarrow> d) address ident ex) s)"
  using assms by (auto simp: getAttestationOrders_pl_def select_pl split: if_splits)

lemma getAttestationOrders_pl_rows:
  assumes "isDataObject V (Some D)"
    and "truthy_str address \<longrightarrow> isWalletAddress V address"
    and "case ident of None \<Rightarrow> True | Some i \<Rightarrow> 0 < i"
  shows "getAttestationOrders_pl V s (Some D) address ident ex multiple
           = Inr (rows_result multiple (filter (matches_pl D address ident ex) s))"
proof -
  have id_ok: "\<not> (case ident of None \<Rightarrow> False | Some i \<Rightarrow> i \<le> 0)"
    using assms(3) by (cases ident) auto
  show ?thesis
    using assms(1,2) id_ok by (simp add: getAttestationOrders_pl_def select_pl)
qed

lemma slot_index:
  "(Some k, Some v) \<in> set (slots r) \<longleftrightarrow> (\<exists>n<4. dataKey r n = Some k \<and> dataValue r n = Some v)"
proof
  assume "(Some k, Some v) \<in> set (slots r)"
  then consider "dataKey r 0 = Some k \<and> dataValue r 0 = Some v"
    | "dataKey r 1 = Some k \<and> dataValue r 1 = Some v"
    | "dataKey r 2 = Some k \<and> dataValue r 2 = Some v"
    | "dataKey r 3 = Some k \<and> dataValue r 3 = Some v"
    by (auto simp: slots_def dataKey_def dataValue_def)
  then show "\<exists>n<4. dataKey r n = Some k \<and> dataValue r n = Some v"
    by cases (metis zero_less_numeral, metis one_less_numeral_iff semiring_norm(76),
              (rule exI [of _ 2], simp), (rule exI [of _ 3], simp))
next
  assume "\<exists>n<4. dataKey r n = Some k \<and> dataValue r n = Some v"
  then obtain n where n: "n < 4" "dataKey r n = Some k" "dataValue r n = Some v" by blast
  from n(1) have "n = 0 \<or> n = 1 \<or> n = 2 \<or> n = 3" by arith
  with n(2,3) show "(Some k, Some v) \<in> set (slots r)"
    by (auto simp: slots_def dataKey_def dataValue_def)
qed

lemma matches_pl_distinct_slots:
  assumes m: "matches_pl D address ident ex r" and d: "distinct (map fst D)"
  shows "\<exists>f. inj_on f (set D) \<and>
            (\<forall>e \<in> set D. f e < 4 \<and> dataKey r (f e) = Some (fst e)
                          \<and> dataValue r (f e) = Some (String_js (snd e)))"
proof -
  from m have "\<forall>e \<in> set D. \<exists>n. n < 4 \<and> dataKey r n = Some (fst e)
                                 \<and> dataValue r n = Some (String_js (snd e))"
    by (auto simp: matches_pl_def slot_index)
  then obtain f where f: "\<forall>e \<in> set D. f e < 4 \<and> dataKey r (f e) = Some (fst e)
                                 \<and> dataValue r (f e) = Some (String_js (snd e))"
    by (rule bchoice [THEN exE])
  have "inj_on f (set D)"
  proof (rule inj_onI)
    fix x y assume xy: "x \<in> set D" "y \<in> set D" "f x = f y"
    with f have "Some (fst x) = Some (fst y)" by metis
    then have "fst x = fst y" by simp
    moreover from d have "inj_on fst (set D)" by (simp add: distinct_map)
    ultimately show "x = y" using xy(1,2) by (auto dest: inj_onD)
  qed
  with f show ?thesis by blast
qed

subsection \<open>The lifecycle functions of the store without providers\<close>

lemma status_str_attested [simp]: "status_str st = ''attested'' \<longleftrightarrow> st = Attested"
  by (cases st) simp_all

lemma status_str_addressed [simp]: "status_str st = ''addressed'' \<longleftrightarrow> st = Addressed"
  by (cases st) simp_all

lemma rows_result_single:
  "rows_result False rs = (case rs of [] \<Rightarrow> Null | r # _ \<Rightarrow> Row r)"
  by (simp add: rows_result_def)

lemma filter_head_holds: "filter P xs = r # rs \<Longrightarrow> P r \<and> r \<in> set xs"
proof -
  assume "filter P xs = r # rs"
  then have "r \<in> set (filter P xs)" by simp
  then show ?thesis by simp
qed

lemma db_update_not_attested_id:
  "db_update s [C Not_attested, AND, C (Eq_id (Some (int i)))] f
     = map (\<lambda>x. if status x \<noteq> Attested \<and> order_id x = i then f x else x) s"
  by (simp add: db_update_def)

lemma truthy_str_val [simp]: "truthy (str_val x) = truthy_str x"
  by (cases x) (simp_all add: str_val_def truthy_str_def)

lemma truthy_str_if [simp]:
  "truthy_str (if truthy_str a then a else None) = truthy_str a"
  by (simp add: truthy_str_def)

lemma matches_pl_without_address:
  "matches_pl D address None True x \<Longrightarrow> matches_pl D None None True x"
  by (simp add: matches_pl_def truthy_str_def)

lemma slots_update [simp]:
  "slots (x\<lparr>user_wallet_address := w, status := st\<rparr>) = slots x"
  by (simp add: slots_def)

lemma updateWallet_pl_found:
  assumes "isWalletAddress V walletAddress" and "isDataObject V (Some D)"
    and "filter (matches_pl D None None True) s = r # rs"
  shows "updateWalletAddressInAttestationOrder_pl V s (Some D) walletAddress
           = (Inr (),
              map (\<lambda>x. if status x \<noteq> Attested \<and> order_id x = order_id r
                        then x\<lparr>user_wallet_address := walletAddress, status := Addressed\<rparr>
                        else x) s)"
proof -
  have look: "getAttestationOrders_pl V s (Some D) None None True False
                = Inr (rows_result False (filter (matches_pl D None None True) s))"
    using assms(2) by (intro getAttestationOrders_pl_rows) (simp_all add: truthy_str_def)
  have "status r \<noteq> Attested"
    using filter_head_holds [OF assms(3)] by (simp add: matches_pl_def)
  then show ?thesis
    using assms look
    by (simp add: updateWalletAddressInAttestationOrder_pl_def rows_result_single
          db_update_not_attested_id)
qed

lemma removeWallet_pl_found:
  assumes "isDataObject V (Some D)" and "truthy_str address \<longrightarrow> isWalletAddress V address"
    and "filter (matches_pl D address None True) s = r # rs"
    and "truthy_str (user_wallet_address r)" and "\<not> truthy_str (unit r)"
  shows "removeWalletAddressInAttestationOrder_pl V s (Some D) address
           = (Inr (),
              map (\<lambda>x. if order_id x = order_id r
                        then x\<lparr>user_wallet_address := None, status := Pending\<rparr> else x) s)"
proof -
  have look: "getAttestationOrders_pl V s (Some D) address None True False
                = Inr (rows_result False (filter (matches_pl D address None True) s))"
    using assms(1,2) by (intro getAttestationOrders_pl_rows) simp_all
  have "status r \<noteq> Attested"
    using filter_head_holds [OF assms(3)] by (simp add: matches_pl_def)
  then show ?thesis
    using assms look
    by (simp add: removeWalletAddressInAttestationOrder_pl_def rows_result_single db_update_def)
qed

lemma removeWallet_pl_not_found:
  assumes "isDataObject V (Some D)" and "truthy_str address \<longrightarrow> isWalletAddress V address"
    and "filter (matches_pl D address None True) s = []"
  shows "removeWalletAddressInAttestationOrder_pl V s (Some D) address = (Inl address_not_found, s)"
proof -
  have look: "getAttestationOrders_pl V s (Some D) address None True False
                = Inr (rows_result False (filter (matches_pl D address None True) s))"
    using assms(1,2) by (intro getAttestationOrders_pl_rows) simp_all
  show ?thesis
    using assms look
    by (simp add: removeWalletAddressInAttestationOrder_pl_def rows_result_single
          address_not_found_def)
qed

lemma first_match_after_bind:
  assumes ids: "distinct (map order_id s)"
    and first: "filter (matches_pl D None None True) s = r # rs"
    and addr: "address = None \<or> address = Some a"
  shows "\<exists>rs'. filter (matches_pl D address None True)
                 (map (\<lambda>x. if status x \<noteq> Attested \<and> order_id x = order_id r
                           then x\<lparr>user_wallet_address := Some a, status := Addressed\<rparr>
                           else x) s)
               = r\<lparr>user_wallet_address := Some a, status := Addressed\<rparr> # rs'"
proof -
  let ?f = "\<lambda>x. if status x \<noteq> Attested \<and> order_id x = order_id r
                 then x\<lparr>user_wallet_address := Some a, status := Addressed\<rparr> else x"
  let ?Q = "matches_pl D address None True"
  from first obtain us vs where s: "s = us @ r # vs"
    and us: "\<forall>u \<in> set us. \<not> matches_pl D None None True u"
    and r: "matches_pl D None None True r"
    by (auto simp: filter_eq_Cons_iff)
  have "\<forall>u \<in> set us. order_id u \<noteq> order_id r"
    using ids unfolding s by (auto simp: image_iff)
  then have fus: "map ?f us = us"
    by (intro map_idI) auto
  have "\<forall>u \<in> set us. \<not> ?Q u"
    using us matches_pl_without_address by blast
  then have nus: "filter ?Q us = []" by simp
  have st: "status r \<noteq> Attested" using r by (simp add: matches_pl_def)
  then have fr: "?f r = r\<lparr>user_wallet_address := Some a, status := Addressed\<rparr>" by simp
  have "?Q (r\<lparr>user_wallet_address := Some a, status := Addressed\<rparr>)"
    using r addr by (auto simp: matches_pl_def truthy_str_def)
  moreover have "map ?f s = us @ r\<lparr>user_wallet_address := Some a, status := Addressed\<rparr> # map ?f vs"
    unfolding s using fus st by simp
  ultimately show ?thesis
    using nus by simp
qed

lemma new_row_holds:
  assumes "length D \<le> 4" and "e \<in> set D"
  shows "(Some (fst e), Some (String_js (snd e)))
           \<in> set (slots (new_row i p w (map fst D) (map String_js (map snd D))))"
proof -
  from assms(2) obtain n where n: "n < length D" "D ! n = e"
    by (auto simp: in_set_conv_nth)
  with assms(1) have "n = 0 \<or> n = 1 \<or> n = 2 \<or> n = 3" by arith
  with n show ?thesis
    by (auto simp: slots_def new_row_def nth_opt_def)
qed

lemma new_row_matches:
  assumes "length D \<le> 4"
  shows "matches_pl D (if truthy_str address then address else None) None True
           (new_row i p (if truthy_str address then address else None)
              (map fst D) (map String_js (map snd D)))"
  using new_row_holds [OF assms]
  by (auto simp: matches_pl_def) (simp_all add: new_row_def)

subsection \<open>Matching (C1)\<close>

text \<open>
  C1, as the code has it. In the store without providers, a lookup with a data filter
  returns exactly the rows in which every requested key/value pair, its value as a
  string, is held by some slot, and that pass the address, id and status filters that are
  set: the stored attribute set contains the requested one and need not equal it. As the
  requested keys are unique, distinct requested pairs are held by distinct slots.
\<close>

theorem getAttestationOrders_pl_matches:
  assumes "isDataObject V (Some D)"
    and "truthy_str address \<longrightarrow> isWalletAddress V address"
    and "case ident of None \<Rightarrow> True | Some i \<Rightarrow> 0 < i"
  shows "getAttestationOrders_pl V s (Some D) address ident ex multiple
           = Inr (rows_result multiple (filter (matches_pl D address ident ex) s))
         \<and> (distinct (map fst D) \<longrightarrow>
              (\<forall>r. matches_pl D address ident ex r \<longrightarrow>
                 (\<exists>f. inj_on f (set D) \<and>
                    (\<forall>e \<in> set D. f e < 4 \<and> dataKey r (f e) = Some (fst e)
                                  \<and> dataValue r (f e) = Some (String_js (snd e))))))"
  using getAttestationOrders_pl_rows [OF assms] matches_pl_distinct_slots by blast

theorem getAttestationOrders_pl_matches_witness:
  "getAttestationOrders_pl sample_validation [alice_order]
     (Some [(''username'', JStr ''alice''), (''userId'', JNum 42)]) None None False True
   = Inr (Rows [alice_order])"
  using getAttestationOrders_pl_matches
    [of sample_validation "[(''username'', JStr ''alice''), (''userId'', JNum 42)]" None None
        "[alice_order]" False True]
  by (simp add: sample_validation_def matches_pl_def slots_def alice_order_def rows_result_def
        truthy_str_def String_num_def decimal.simps)

text \<open>
  The claim as stated fails, in both stores: a lookup for \<open>{username: "alice"}\<close> returns
  the order that stores \<open>{username: "alice", userId: "42"}\<close>.
\<close>

theorem getAttestationOrders_set_equality_counterexample:
  "getAttestationOrders_pl sample_validation [alice_order]
     (Some [(''username'', JStr ''alice'')]) None None False False = Inr (Row alice_order)
   \<and> getAttestationOrders_sp sample_validation [alice_order] (Some ''default'')
     (Some [(''username'', JStr ''alice'')]) None False False = Inr (Row alice_order)
   \<and> \<not> isEqual (slot_entries alice_order) [(''username'', JStr ''alice'')]"
  by (simp add: getAttestationOrders_pl_def getAttestationOrders_sp_def sample_validation_def
        db_select_def build_query_pl_def build_query_sp_def entry_toks_sp_def
        and_unless_empty_def truthy_str_def rows_result_def alice_order_def slot_test_def
        dataKey_def dataValue_def sql_eq_def sql_and_def sql_or_def isEqual_def slot_entries_def)

subsection \<open>The address check of the handler (C2)\<close>

lemma parse_claim_check_address:
  assumes "claim_parses V signedData"
  shows "parse_claim V E provider s from_address walletAddress (Some signedData)
           = check_address V E provider s from_address walletAddress
               (claimed_address signedData) (claim_data signedData)"
proof (cases "get_prop signedData ''message''")
  case (JStr m)
  with assms show ?thesis
    by (cases "m = []")
       (auto simp: parse_claim_def claim_parses_def claimed_address_def claim_data_def Let_def)
qed (use assms in \<open>auto simp: parse_claim_def claim_parses_def claimed_address_def claim_data_def Let_def\<close>)

text \<open>
  C2, as the code has it. For an inbound event whose signature verifies and whose claim
  parses: when the claim carries an address (a truthy one) that differs from the first
  author's, the handler replies \<open>MISMATCH_ADDRESS\<close>, that only, and leaves the store as
  it was; when the claim carries no address, the check is skipped and the handler goes on
  to the order lookup, without an address filter.
\<close>

theorem verifyHandler_address_check:
  assumes "claim_parses V signedData"
  shows "(truthy (claimed_address signedData) \<and> claimed_address signedData \<noteq> JStr walletAddress
            \<longrightarrow> verifyHandler V E conf_serviceProvider s from_address
                   (Envelope False (Some (walletAddress # others)) (Some signedData))
                 = ([sendMessageToDevice from_address MISMATCH_ADDRESS], s))
         \<and> (\<not> truthy (claimed_address signedData)
            \<longrightarrow> verifyHandler V E conf_serviceProvider s from_address
                   (Envelope False (Some (walletAddress # others)) (Some signedData))
                 = (case getAttestationOrders_sp V s
                           (Some (if truthy_str conf_serviceProvider then the conf_serviceProvider
                                  else ''default''))
                           (Some (claim_data signedData)) (str_arg (claimed_address signedData))
                           False False of
                      Inl err \<Rightarrow> ([sendMessageToDevice from_address INVALID_FORMAT_SIGNED_MESSAGE], s)
                    | Inr order \<Rightarrow>
                        on_order V E s from_address order (claimed_address signedData)
                          (claim_data signedData)))"
  using parse_claim_check_address [OF assms]
  by (auto simp: verifyHandler_def check_address_def Let_def)

theorem verifyHandler_address_check_witness:
  "verifyHandler sample_validation sample_collaborators None [alice_order] ''DEVICE''
     (Envelope False (Some [ADDR1])
        (Some [(''message'', JStr (''I own the address: '' @ ADDR2)),
               (''username'', JStr ''alice''), (''userId'', JStr ''42'')]))
   = ([sendMessageToDevice ''DEVICE'' MISMATCH_ADDRESS], [alice_order])
   \<and> verifyHandler sample_validation sample_collaborators None [alice_order] ''DEVICE''
     (Envelope False (Some [ADDR1])
        (Some [(''address'', JStr ADDR2), (''username'', JStr ''alice'')]))
   = ([sendMessageToDevice ''DEVICE'' MISMATCH_ADDRESS], [alice_order])
   \<and> verifyHandler sample_validation sample_collaborators None [alice_order] ''DEVICE''
     (Envelope False (Some [ADDR1]) (Some [(''username'', JStr ''alice'')]))
   = ([sendMessageToDevice ''DEVICE'' MISMATCH_DATA], [alice_order])"
proof -
  have phrase: "verifyHandler sample_validation sample_collaborators None [alice_order] ''DEVICE''
     (Envelope False (Some [ADDR1])
        (Some [(''message'', JStr (''I own the address: '' @ ADDR2)),
               (''username'', JStr ''alice''), (''userId'', JStr ''42'')]))
     = ([sendMessageToDevice ''DEVICE'' MISMATCH_ADDRESS], [alice_order])"
    using verifyHandler_address_check
      [of sample_validation
          "[(''message'', JStr (''I own the address: '' @ ADDR2)),
            (''username'', JStr ''alice''), (''userId'', JStr ''42'')]"
          ADDR1 sample_collaborators None "[alice_order]" "''DEVICE''" "[]"]
    by (simp add: claim_parses_def claimed_address_def sample_validation_def get_prop_def
          ADDR1_def ADDR2_def trim_def isSpace_def)
  have property: "verifyHandler sample_validation sample_collaborators None [alice_order] ''DEVICE''
     (Envelope False (Some [ADDR1])
        (Some [(''address'', JStr ADDR2), (''username'', JStr ''alice'')]))
     = ([sendMessageToDevice ''DEVICE'' MISMATCH_ADDRESS], [alice_order])"
    using verifyHandler_address_check
      [of sample_validation "[(''address'', JStr ADDR2), (''username'', JStr ''alice'')]"
          ADDR1 sample_collaborators None "[alice_order]" "''DEVICE''" "[]"]
    by (simp add: claim_parses_def claimed_address_def claim_data_def get_prop_def
          ADDR1_def ADDR2_def)
  have "verifyHandler sample_validation sample_collaborators None [alice_order] ''DEVICE''
     (Envelope False (Some [ADDR1]) (Some [(''username'', JStr ''alice'')]))
     = (case getAttestationOrders_sp sample_validation [alice_order] (Some ''default'')
              (Some (claim_data [(''username'', JStr ''alice'')]))
              (str_arg (claimed_address [(''username'', JStr ''alice'')])) False False of
          Inl err \<Rightarrow> ([sendMessageToDevice ''DEVICE'' INVALID_FORMAT_SIGNED_MESSAGE], [alice_order])
        | Inr order \<Rightarrow>
            on_order sample_validation sample_collaborators [alice_order] ''DEVICE'' order
              (claimed_address [(''username'', JStr ''alice'')])
              (claim_data [(''username'', JStr ''alice'')]))"
    using verifyHandler_address_check
      [of sample_validation "[(''username'', JStr ''alice'')]"
          ADDR1 sample_collaborators None "[alice_order]" "''DEVICE''" "[]"]
    by (simp add: claim_parses_def claimed_address_def claim_data_def get_prop_def truthy_str_def)
  then have absent: "verifyHandler sample_validation sample_collaborators None [alice_order] ''DEVICE''
     (Envelope False (Some [ADDR1]) (Some [(''username'', JStr ''alice'')]))
     = ([sendMessageToDevice ''DEVICE'' MISMATCH_DATA], [alice_order])"
    by (simp add: on_order_def claimed_address_def claim_data_def
          sample_validation_def sample_collaborators_def get_prop_def
          getAttestationOrders_sp_def db_select_def build_query_sp_def entry_toks_sp_def
          truthy_str_def rows_result_def alice_order_def slot_test_def dataKey_def dataValue_def
          sql_eq_def sql_and_def sql_or_def isEqual_def slot_entries_def str_val_def)
  show ?thesis using phrase property absent by simp
qed

text \<open>
  The claim as stated fails: a signed claim with no address gets the reply of the order
  lookup.
\<close>

theorem verifyHandler_no_address_reaches_lookup_counterexample:
  "verifyHandler sample_validation sample_collaborators None [] ''DEVICE''
     (Envelope False (Some [ADDR1]) (Some [(''username'', JStr ''alice'')]))
   = ([sendMessageToDevice ''DEVICE'' CANNOT_FIND_ORDER], [])"
  by (simp add: verifyHandler_def parse_claim_def check_address_def on_order_def
        getAttestationOrders_sp_def sample_validation_def db_select_def build_query_sp_def
        entry_toks_sp_def truthy_str_def rows_result_def get_prop_def Let_def)

subsection \<open>A signed message for an attested order (C3)\<close>

text \<open>
  C3 at a concrete input: the order of the example is attested to \<open>ADDR1\<close>, and the
  owner submits a valid signed message again. The handler finds the order, fails to build
  the already-attested notice and replies \<open>INVALID_FORMAT_SIGNED_MESSAGE\<close>; the store is
  as it was.
\<close>

theorem verifyHandler_attested_order_replies_invalid_format:
  "verifyHandler sample_validation sample_collaborators None [attested_order] ''DEVICE''
     (Envelope False (Some [ADDR1])
        (Some [(''message'', JStr (''I own the address: '' @ ADDR1)),
               (''username'', JStr ''alice''), (''userId'', JStr ''42'')]))
   = ([sendMessageToDevice ''DEVICE'' INVALID_FORMAT_SIGNED_MESSAGE], [attested_order])"
  by (simp add: verifyHandler_def parse_claim_def check_address_def on_order_def
        getAttestationOrders_sp_def sample_validation_def
        db_select_def build_query_sp_def entry_toks_sp_def truthy_str_def rows_result_def
        attested_order_def alice_order_def slot_test_def dataKey_def dataValue_def sql_eq_def
        sql_and_def sql_or_def ADDR1_def get_prop_def trim_def isSpace_def Let_def)

subsection \<open>Creating an order that exists, duplicates not allowed (C4)\<close>

text \<open>
  C4 at a concrete input, in the provider-scoped store: the order of the example exists
  and is pending; creating it again with \<open>allowDuplicates = false\<close> throws a
  \<open>ReferenceError\<close>, not the \<open>ALREADY_EXISTS\<close> error. No row is inserted.
\<close>

theorem createAttestationOrder_sp_existing_order_throws_ReferenceError:
  "createAttestationOrder_sp sample_validation [alice_order] (Some ''default'')
     (Some [(''username'', JStr ''alice''), (''userId'', JStr ''42'')]) False
   = (Inl (ReferenceError ''username is not defined''), [alice_order])"
  by (simp add: createAttestationOrder_sp_def getAttestationOrders_sp_def sample_validation_def
        db_select_def build_query_sp_def entry_toks_sp_def truthy_str_def rows_result_def
        alice_order_def slot_test_def dataKey_def dataValue_def sql_eq_def sql_and_def sql_or_def)

subsection \<open>Creating twice (C5)\<close>

lemma create_pl_twice:
  assumes "isDataObject V (Some D)" and "D \<noteq> []" and "length D \<le> 4"
    and "truthy_str address \<longrightarrow> isWalletAddress V address"
  shows "\<exists>i s1. createAttestationOrder_pl V s (Some D) address True = (Inr (Id i), s1)
               \<and> createAttestationOrder_pl V s1 (Some D) address True = (Inr (Id i), s1)"
proof -
  define a where "a = (if truthy_str address then address else None)"
  have valid: "truthy_str a \<longrightarrow> isWalletAddress V a"
    using assms(4) by (simp add: a_def)
  have look: "getAttestationOrders_pl V t (Some D) a None True False
                = Inr (rows_result False (filter (matches_pl D a None True) t))" for t
    using assms(1) valid by (intro getAttestationOrders_pl_rows) simp_all
  show ?thesis
  proof (cases "filter (matches_pl D a None True) s")
    case Nil
    define n where "n = new_row (Suc (max_id s)) None a (map fst D) (map String_js (map snd D))"
    have first: "createAttestationOrder_pl V s (Some D) address True
                   = (Inr (Id (Suc (max_id s))), s @ [n])"
      using assms look [of s] Nil
      by (simp add: createAttestationOrder_pl_def a_def [symmetric] rows_result_single
            db_insert_def n_def)
    have "matches_pl D a None True n"
      unfolding n_def a_def by (rule new_row_matches [OF assms(3)])
    then have "filter (matches_pl D a None True) (s @ [n]) = [n]"
      using Nil by simp
    then have "createAttestationOrder_pl V (s @ [n]) (Some D) address True
                 = (Inr (Id (order_id n)), s @ [n])"
      using assms look [of "s @ [n]"]
      by (simp add: createAttestationOrder_pl_def a_def [symmetric] rows_result_single)
    moreover have "order_id n = Suc (max_id s)" by (simp add: n_def new_row_def)
    ultimately show ?thesis using first by auto
  next
    case (Cons r rs)
    then have "createAttestationOrder_pl V s (Some D) address True = (Inr (Id (order_id r)), s)"
      using assms look [of s]
      by (simp add: createAttestationOrder_pl_def a_def [symmetric] rows_result_single)
    then show ?thesis by auto
  qed
qed

lemma well_formed_tail_append:
  "well_formed_tail xs \<Longrightarrow> well_formed_tail ys \<Longrightarrow> well_formed_tail (xs @ ys)"
  by (induction xs rule: well_formed_tail.induct) simp_all

lemma well_formed_tail_entries: "well_formed_tail (concat (map entry_toks_sp D))"
  by (induction D) (simp_all add: entry_toks_sp_def)

lemma well_formed_sp: "well_formed (build_query_sp p D address ex)"
  by (simp add: build_query_sp_def well_formed_tail_append well_formed_tail_entries)

lemma lookup_sp_rows:
  assumes "isServiceProvider V p" and "isDataObject V (Some D)"
  shows "getAttestationOrders_sp V s p (Some D) None ex False
           = Inr (rows_result False
                    (filter (\<lambda>r. eval_where r (build_query_sp p D None ex) = Some True) s))"
  using assms
  by (simp add: getAttestationOrders_sp_def db_select_def well_formed_sp truthy_str_def)

lemma new_row_found_sp:
  assumes "D \<noteq> []" and "\<forall>e \<in> set D. sql_param (snd e) = Some (String_js (snd e))"
  shows "eval_where (new_row i (Some p) None (map fst D) (map String_js (map snd D)))
           (build_query_sp (Some p) D None ex) = Some True"
proof -
  obtain e D' where D: "D = e # D'" using assms(1) by (cases D) auto
  have "sql_param (snd e) = Some (String_js (snd e))" using assms(2) D by simp
  then show ?thesis
    by (simp add: D build_query_sp_def entry_toks_sp_def slot_test_def dataKey_def dataValue_def
          new_row_def nth_opt_def truthy_str_def)
qed

lemma create_sp_twice:
  assumes "isServiceProvider V (Some p)" and "isDataObject V (Some D)"
    and "D \<noteq> []" and "length D \<le> 4"
    and "\<forall>e \<in> set D. \<exists>x. snd e = JStr x"
  shows "\<exists>i s1. createAttestationOrder_sp V s (Some p) (Some D) True = (Inr (Id i), s1)
               \<and> createAttestationOrder_sp V s1 (Some p) (Some D) True = (Inr (Id i), s1)"
proof -
  let ?sel = "\<lambda>r. eval_where r (build_query_sp (Some p) D None True) = Some True"
  have look: "getAttestationOrders_sp V t (Some p) (Some D) None True False
                = Inr (rows_result False (filter ?sel t))" for t
    using assms(1,2) by (rule lookup_sp_rows)
  show ?thesis
  proof (cases "filter ?sel s")
    case Nil
    define n where "n = new_row (Suc (max_id s)) (Some p) None (map fst D) (map String_js (map snd D))"
    have first: "createAttestationOrder_sp V s (Some p) (Some D) True
                   = (Inr (Id (Suc (max_id s))), s @ [n])"
      using assms(2,3,4) look [of s] Nil
      by (simp add: createAttestationOrder_sp_def rows_result_single db_insert_def n_def)
    have "\<forall>e \<in> set D. sql_param (snd e) = Some (String_js (snd e))"
      using assms(5) by auto
    with assms(3) have "?sel n"
      unfolding n_def by (rule new_row_found_sp)
    then have "filter ?sel (s @ [n]) = [n]"
      using Nil by simp
    then have "createAttestationOrder_sp V (s @ [n]) (Some p) (Some D) True
                 = (Inr (Id (order_id n)), s @ [n])"
      using assms(2) look [of "s @ [n]"]
      by (simp add: createAttestationOrder_sp_def rows_result_single)
    moreover have "order_id n = Suc (max_id s)" by (simp add: n_def new_row_def)
    ultimately show ?thesis using first by auto
  next
    case (Cons r rs)
    then have "createAttestationOrder_sp V s (Some p) (Some D) True = (Inr (Id (order_id r)), s)"
      using assms(2) look [of s]
      by (simp add: createAttestationOrder_sp_def rows_result_single)
    then show ?thesis by auto
  qed
qed

text \<open>
  C5, as the code has it. For every attribute set \<open>D\<close> that passes the validation and has
  between one and four entries, \<open>createAttestationOrder\<close> called twice with
  \<open>allowDuplicates = true\<close> returns the same id both times, and the second call leaves
  the store as the first one left it: it inserts no row. This holds in the store without
  providers for an address that is absent or valid, and in the provider-scoped store for a
  valid provider and values that are strings.
\<close>

theorem createAttestationOrder_idempotent:
  assumes "isDataObject V (Some D)" and "D \<noteq> []" and "length D \<le> 4"
  shows "((truthy_str address \<longrightarrow> isWalletAddress V address) \<longrightarrow>
            (\<exists>i s1. createAttestationOrder_pl V s (Some D) address True = (Inr (Id i), s1)
                  \<and> createAttestationOrder_pl V s1 (Some D) address True = (Inr (Id i), s1)))
         \<and> (isServiceProvider V (Some p) \<and> (\<forall>e \<in> set D. \<exists>x. snd e = JStr x) \<longrightarrow>
            (\<exists>i s1. createAttestationOrder_sp V s (Some p) (Some D) True = (Inr (Id i), s1)
                  \<and> createAttestationOrder_sp V s1 (Some p) (Some D) True = (Inr (Id i), s1)))"
  using create_pl_twice [OF assms] create_sp_twice [OF _ assms] by blast

theorem createAttestationOrder_idempotent_witness:
  "createAttestationOrder_pl sample_validation []
     (Some [(''username'', JStr ''alice''), (''userId'', JStr ''42'')]) None True
     = (Inr (Id 1), [alice_order\<lparr>service_provider := None\<rparr>])
   \<and> createAttestationOrder_pl sample_validation [alice_order\<lparr>service_provider := None\<rparr>]
     (Some [(''username'', JStr ''alice''), (''userId'', JStr ''42'')]) None True
     = (Inr (Id 1), [alice_order\<lparr>service_provider := None\<rparr>])
   \<and> createAttestationOrder_sp sample_validation [] (Some ''default'')
     (Some [(''username'', JStr ''alice''), (''userId'', JStr ''42'')]) True
     = (Inr (Id 1), [alice_order])
   \<and> createAttestationOrder_sp sample_validation [alice_order] (Some ''default'')
     (Some [(''username'', JStr ''alice''), (''userId'', JStr ''42'')]) True
     = (Inr (Id 1), [alice_order])"
proof -
  have valid: "isDataObject sample_validation (Some [(''username'', JStr ''alice''), (''userId'', JStr ''42'')])"
    "[(''username'', JStr ''alice''), (''userId'', JStr ''42'')] \<noteq> []"
    "length [(''username'', JStr ''alice''), (''userId'', JStr ''42'')] \<le> 4"
    by (simp_all add: sample_validation_def)
  note twice = createAttestationOrder_idempotent [OF valid, of None "[]" "''default''"]
  have pl: "createAttestationOrder_pl sample_validation []
     (Some [(''username'', JStr ''alice''), (''userId'', JStr ''42'')]) None True
     = (Inr (Id 1), [alice_order\<lparr>service_provider := None\<rparr>])
   \<and> createAttestationOrder_pl sample_validation [alice_order\<lparr>service_provider := None\<rparr>]
     (Some [(''username'', JStr ''alice''), (''userId'', JStr ''42'')]) None True
     = (Inr (Id 1), [alice_order\<lparr>service_provider := None\<rparr>])"
    by (simp add: createAttestationOrder_pl_def getAttestationOrders_pl_def
        sample_validation_def db_select_def build_query_pl_def and_unless_empty_def truthy_str_def
        rows_result_def db_insert_def new_row_def nth_opt_def max_id_def alice_order_def
        slot_test_def dataKey_def dataValue_def sql_eq_def)
  have sp: "createAttestationOrder_sp sample_validation [] (Some ''default'')
     (Some [(''username'', JStr ''alice''), (''userId'', JStr ''42'')]) True
     = (Inr (Id 1), [alice_order])
   \<and> createAttestationOrder_sp sample_validation [alice_order] (Some ''default'')
     (Some [(''username'', JStr ''alice''), (''userId'', JStr ''42'')]) True
     = (Inr (Id 1), [alice_order])"
    by (simp add: createAttestationOrder_sp_def getAttestationOrders_sp_def
        sample_validation_def db_select_def build_query_sp_def entry_toks_sp_def truthy_str_def
        rows_result_def db_insert_def new_row_def nth_opt_def max_id_def alice_order_def
        slot_test_def dataKey_def dataValue_def sql_eq_def sql_and_def sql_or_def)
  from twice pl sp show ?thesis by simp
qed

text \<open>
  The claim as stated fails at the empty attribute set, which has at most four unique
  keys. On a store with no order to return, no id is returned, in either store: under a
  validation that accepts the empty object the \<open>INSERT\<close> of no column does not parse,
  and under one that rejects it the call throws \<open>INVALID_DATA\<close> (or, in the
  provider-scoped store, returns the error object).
\<close>

theorem createAttestationOrder_empty_data_counterexample:
  "createAttestationOrder_pl sample_validation [] (Some []) None True
     = (Inl (SqlError ''syntax error''), [])
   \<and> createAttestationOrder_pl strict_validation [] (Some []) None True
     = (Inl (ErrorWithMessage ''Invalid data object''
               [(''code'', JStr ''INVALID_DATA''), (''data'', JObject [])]), [])
   \<and> createAttestationOrder_sp sample_validation [] (Some ''default'') (Some []) True
     = (Inl (SqlError ''syntax error''), [])
   \<and> createAttestationOrder_sp strict_validation [] (Some ''default'') (Some []) True
     = (Inr (Returned (ErrorWithMessage ''Invalid data object''
               [(''code'', JStr ''INVALID_DATA''), (''data'', JObject [])])), [])"
  by (simp add: createAttestationOrder_pl_def getAttestationOrders_pl_def
        createAttestationOrder_sp_def getAttestationOrders_sp_def
        sample_validation_def strict_validation_def db_select_def build_query_pl_def
        build_query_sp_def and_unless_empty_def truthy_str_def rows_result_def db_insert_def
        data_val_def)

subsection \<open>Binding an address (C6)\<close>

text \<open>
  C6, as the code has it. In the store without providers, with a valid address and valid
  data: when no order matches the data, \<open>updateWalletAddressInAttestationOrder\<close> fails
  with \<open>ORDER_NOT_FOUND\<close> and leaves the store as it was; when an order that is not
  attested matches, it sets the wallet address and the status \<open>addressed\<close> of the first
  such order, and changes no other order.
\<close>

theorem updateWalletAddress_pl_outcomes:
  assumes "isWalletAddress V walletAddress" and "isDataObject V (Some D)"
  shows "(filter (matches_pl D None None False) s = [] \<longrightarrow>
            updateWalletAddressInAttestationOrder_pl V s (Some D) walletAddress
              = (Inl order_not_found, s))
         \<and> (\<forall>r rs. filter (matches_pl D None None True) s = r # rs \<longrightarrow>
              updateWalletAddressInAttestationOrder_pl V s (Some D) walletAddress
                = (Inr (),
                   map (\<lambda>x. if status x \<noteq> Attested \<and> order_id x = order_id r
                             then x\<lparr>user_wallet_address := walletAddress, status := Addressed\<rparr>
                             else x) s))"
proof -
  have look: "getAttestationOrders_pl V s (Some D) None None True False
                = Inr (rows_result False (filter (matches_pl D None None True) s))"
    using assms(2) by (intro getAttestationOrders_pl_rows) (simp_all add: truthy_str_def)
  have "filter (matches_pl D None None True) s = []"
    if "filter (matches_pl D None None False) s = []"
  proof -
    have "\<not> matches_pl D None None True x" if "x \<in> set s" for x
      using that \<open>filter (matches_pl D None None False) s = []\<close>
      by (auto simp: matches_pl_def filter_empty_conv)
    then show ?thesis by (simp add: filter_empty_conv)
  qed
  then have "filter (matches_pl D None None False) s = [] \<Longrightarrow>
          updateWalletAddressInAttestationOrder_pl V s (Some D) walletAddress
            = (Inl order_not_found, s)"
    using assms look
    by (simp add: updateWalletAddressInAttestationOrder_pl_def rows_result_single
          order_not_found_def)
  then show ?thesis
    using updateWallet_pl_found [OF assms] by blast
qed

theorem updateWalletAddress_pl_outcomes_witness:
  "updateWalletAddressInAttestationOrder_pl sample_validation [alice_order]
     (Some [(''username'', JStr ''alice''), (''userId'', JStr ''42'')]) (Some ADDR1)
   = (Inr (), [alice_order\<lparr>user_wallet_address := Some ADDR1, status := Addressed\<rparr>])
   \<and> updateWalletAddressInAttestationOrder_pl sample_validation [alice_order]
     (Some [(''username'', JStr ''bob'')]) (Some ADDR1)
   = (Inl order_not_found, [alice_order])"
  using updateWalletAddress_pl_outcomes
    [of sample_validation "Some ADDR1" "[(''username'', JStr ''alice''), (''userId'', JStr ''42'')]"
        "[alice_order]"]
    updateWalletAddress_pl_outcomes
    [of sample_validation "Some ADDR1" "[(''username'', JStr ''bob'')]" "[alice_order]"]
  by (simp add: sample_validation_def matches_pl_def slots_def alice_order_def
        ADDR1_def truthy_str_def)

text \<open>
  The claim as stated fails: with no matching order the error code is
  \<open>ORDER_NOT_FOUND\<close>, in both stores.
\<close>

theorem updateWalletAddress_no_match_counterexample:
  "updateWalletAddressInAttestationOrder_pl sample_validation []
     (Some [(''username'', JStr ''alice'')]) (Some ADDR1)
     = (Inl (ErrorWithMessage ''Order not found'' [(''code'', JStr ''ORDER_NOT_FOUND'')]), [])
   \<and> updateWalletAddressInAttestationOrder_sp sample_validation [] (Some ''default'')
     (Some [(''username'', JStr ''alice'')]) (Some ADDR1)
     = (Inl (ErrorWithMessage ''Order not found'' [(''code'', JStr ''ORDER_NOT_FOUND'')]), [])"
  by (simp add: updateWalletAddressInAttestationOrder_pl_def getAttestationOrders_pl_def
        updateWalletAddressInAttestationOrder_sp_def getAttestationOrders_sp_def
        sample_validation_def db_select_def build_query_pl_def build_query_sp_def
        entry_toks_sp_def and_unless_empty_def truthy_str_def rows_result_def ADDR1_def)

subsection \<open>Binding, then unbinding (C7)\<close>

text \<open>
  C7, as the code has it. In the store without providers, with valid data and a valid
  address \<open>a\<close>: when the first order matching the data that is not attested has no
  unit, binding \<open>a\<close> and then unbinding (with \<open>a\<close> or with no address) both succeed,
  and leave that order \<open>pending\<close> with no wallet address and every other order as it
  was; if the order was pending with no address before, the store is back in its state
  before the binding. Unbinding when no order that is not attested matches (so also when
  the matching order is attested) fails with \<open>ADDRESS_NOT_FOUND\<close> and leaves the store
  as it was.
\<close>

theorem bind_unbind_pl:
  assumes "isWalletAddress V (Some a)" and "a \<noteq> []" and "isDataObject V (Some D)"
    and "address = None \<or> address = Some a"
  shows "(distinct (map order_id s) \<longrightarrow>
            (\<forall>r rs. filter (matches_pl D None None True) s = r # rs \<and> \<not> truthy_str (unit r) \<longrightarrow>
               (\<exists>s1. updateWalletAddressInAttestationOrder_pl V s (Some D) (Some a) = (Inr (), s1)
                    \<and> removeWalletAddressInAttestationOrder_pl V s1 (Some D) address
                        = (Inr (),
                           map (\<lambda>x. if order_id x = order_id r
                                     then x\<lparr>user_wallet_address := None, status := Pending\<rparr>
                                     else x) s))
               \<and> (status r = Pending \<and> user_wallet_address r = None \<longrightarrow>
                    map (\<lambda>x. if order_id x = order_id r
                              then x\<lparr>user_wallet_address := None, status := Pending\<rparr>
                              else x) s = s)))
         \<and> (filter (matches_pl D address None True) s = [] \<longrightarrow>
              removeWalletAddressInAttestationOrder_pl V s (Some D) address
                = (Inl address_not_found, s))"
proof (intro conjI impI allI)
  fix r rs
  assume ids: "distinct (map order_id s)"
    and h: "filter (matches_pl D None None True) s = r # rs \<and> \<not> truthy_str (unit r)"
  let ?f = "\<lambda>x. if status x \<noteq> Attested \<and> order_id x = order_id r
                 then x\<lparr>user_wallet_address := Some a, status := Addressed\<rparr> else x"
  let ?r' = "r\<lparr>user_wallet_address := Some a, status := Addressed\<rparr>"
  have bind: "updateWalletAddressInAttestationOrder_pl V s (Some D) (Some a) = (Inr (), map ?f s)"
    using assms(1,3) h by (intro updateWallet_pl_found) auto
  obtain rs' where f: "filter (matches_pl D address None True) (map ?f s) = ?r' # rs'"
    using first_match_after_bind [OF ids _ assms(4)] h by blast
  have valid: "truthy_str address \<longrightarrow> isWalletAddress V address"
    using assms(1,4) by (auto simp: truthy_str_def)
  have "removeWalletAddressInAttestationOrder_pl V (map ?f s) (Some D) address
          = (Inr (),
             map (\<lambda>x. if order_id x = order_id ?r'
                       then x\<lparr>user_wallet_address := None, status := Pending\<rparr> else x)
               (map ?f s))"
    using assms(2,3) valid f h by (intro removeWallet_pl_found) (auto simp: truthy_str_def)
  also have "map (\<lambda>x. if order_id x = order_id ?r'
                       then x\<lparr>user_wallet_address := None, status := Pending\<rparr> else x)
               (map ?f s)
             = map (\<lambda>x. if order_id x = order_id r
                         then x\<lparr>user_wallet_address := None, status := Pending\<rparr> else x) s"
    by (simp add: comp_def)
  finally show "\<exists>s1. updateWalletAddressInAttestationOrder_pl V s (Some D) (Some a) = (Inr (), s1)
                    \<and> removeWalletAddressInAttestationOrder_pl V s1 (Some D) address
                        = (Inr (),
                           map (\<lambda>x. if order_id x = order_id r
                                     then x\<lparr>user_wallet_address := None, status := Pending\<rparr>
                                     else x) s)"
    using bind by blast
next
  fix r rs
  assume ids: "distinct (map order_id s)"
    and h: "filter (matches_pl D None None True) s = r # rs \<and> \<not> truthy_str (unit r)"
    and p: "status r = Pending \<and> user_wallet_address r = None"
  have rin: "r \<in> set s" using h filter_head_holds by fastforce
  show "map (\<lambda>x. if order_id x = order_id r
                  then x\<lparr>user_wallet_address := None, status := Pending\<rparr> else x) s = s"
  proof (rule map_idI)
    fix x assume x: "x \<in> set s"
    show "(if order_id x = order_id r
           then x\<lparr>user_wallet_address := None, status := Pending\<rparr> else x) = x"
    proof (cases "order_id x = order_id r")
      case True
      with ids x rin have "x = r" by (meson distinct_map inj_onD)
      with p show ?thesis by simp
    qed simp
  qed
next
  assume "filter (matches_pl D address None True) s = []"
  moreover have "truthy_str address \<longrightarrow> isWalletAddress V address"
    using assms(1,4) by (auto simp: truthy_str_def)
  ultimately show "removeWalletAddressInAttestationOrder_pl V s (Some D) address
                     = (Inl address_not_found, s)"
    using assms(3) by (intro removeWallet_pl_not_found)
qed

theorem bind_unbind_pl_witness:
  "updateWalletAddressInAttestationOrder_pl sample_validation [alice_order]
     (Some [(''username'', JStr ''alice''), (''userId'', JStr ''42'')]) (Some ADDR1)
     = (Inr (), [alice_order\<lparr>user_wallet_address := Some ADDR1, status := Addressed\<rparr>])
   \<and> removeWalletAddressInAttestationOrder_pl sample_validation
       [alice_order\<lparr>user_wallet_address := Some ADDR1, status := Addressed\<rparr>]
       (Some [(''username'', JStr ''alice''), (''userId'', JStr ''42'')]) (Some ADDR1)
     = (Inr (), [alice_order])"
  using bind_unbind_pl
    [of sample_validation ADDR1 "[(''username'', JStr ''alice''), (''userId'', JStr ''42'')]"
        "Some ADDR1" "[alice_order]"]
  by (simp add: updateWalletAddressInAttestationOrder_pl_def
        removeWalletAddressInAttestationOrder_pl_def getAttestationOrders_pl_def
        sample_validation_def db_select_def build_query_pl_def and_unless_empty_def truthy_str_def
        rows_result_def db_update_def alice_order_def ADDR1_def str_val_def
        slot_test_def dataKey_def dataValue_def sql_eq_def)

text \<open>
  The claim as stated fails: unbinding the attested order of the example fails with
  \<open>ADDRESS_NOT_FOUND\<close>, not \<open>ALREADY_ATTESTED\<close>.
\<close>

theorem removeWalletAddress_attested_counterexample:
  "removeWalletAddressInAttestationOrder_pl sample_validation [attested_order]
     (Some [(''username'', JStr ''alice''), (''userId'', JStr ''42'')]) (Some ADDR1)
   = (Inl (ErrorWithMessage ''Order not found or already attested''
             [(''code'', JStr ''ADDRESS_NOT_FOUND'')]), [attested_order])"
  by (simp add: removeWalletAddressInAttestationOrder_pl_def getAttestationOrders_pl_def
        sample_validation_def db_select_def build_query_pl_def and_unless_empty_def truthy_str_def
        rows_result_def attested_order_def alice_order_def ADDR1_def
        slot_test_def dataKey_def dataValue_def sql_eq_def)

subsection \<open>Only the finalize step writes (C8)\<close>

lemma updateUnitAndChangeStatus_sp_throw:
  "updateUnitAndChangeStatus_sp V s p d a u = (Inl e, s') \<Longrightarrow> s' = s"
  by (auto simp: updateUnitAndChangeStatus_sp_def split: if_splits sum.splits)

lemma only_finalize_writes_same [simp]: "only_finalize_writes s from_address (effs, s)"
  by (simp add: only_finalize_writes_def)

lemma attest_only_finalize_writes:
  "only_finalize_writes s from_address (attest V E s from_address order address d)"
proof (cases "postAttestationProfile E (lookup_service_provider order) address d")
  case (Inl err)
  then show ?thesis by (simp add: attest_def)
next
  case (Inr u)
  obtain r s' where upd: "updateUnitAndChangeStatus_sp V s (str_arg (get_prop d ''provider''))
                     (Some d) (str_arg address) (Some u) = (r, s')"
    by (cases "updateUnitAndChangeStatus_sp V s (str_arg (get_prop d ''provider''))
                     (Some d) (str_arg address) (Some u)")
  show ?thesis
  proof (cases r)
    case (Inl e)
    with upd have "s' = s" by (auto dest: updateUnitAndChangeStatus_sp_throw)
    with Inr upd Inl show ?thesis by (simp add: attest_def)
  next
    case (Inr x)
    then show ?thesis using \<open>postAttestationProfile E _ _ _ = Inr u\<close> upd
      by (auto simp: attest_def only_finalize_writes_def failure_replies_def)
  qed
qed

lemma on_order_only_finalize_writes:
  "only_finalize_writes s from_address (on_order V E s from_address order address d)"
  using attest_only_finalize_writes [of s from_address V E order address d]
  by (auto simp: on_order_def split: sum.splits)

lemma check_address_only_finalize_writes:
  "only_finalize_writes s from_address
     (check_address V E provider s from_address walletAddress address d)"
  using on_order_only_finalize_writes [of s from_address V E _ address d]
  by (auto simp: check_address_def split: sum.splits)

lemma parse_claim_only_finalize_writes:
  "only_finalize_writes s from_address
     (parse_claim V E provider s from_address walletAddress parsed)"
  using check_address_only_finalize_writes [of s from_address V E provider walletAddress]
  by (auto simp: parse_claim_def Let_def split: option.splits jsval.splits)

text \<open>
  C8. For every inbound event, a run of the handler that replies
  \<open>INVALID_FORMAT_SIGNED_MESSAGE\<close>, \<open>VALIDATION_FAILED\<close>, \<open>MISMATCH_ADDRESS\<close>,
  \<open>MISMATCH_DATA\<close> or \<open>CANNOT_FIND_ORDER\<close> leaves the order store as it was, and a
  run that changes the store is one that finalized: it sends the attestation's unit.
\<close>

theorem verifyHandler_only_finalize_writes:
  "only_finalize_writes s from_address (verifyHandler V E conf_serviceProvider s from_address msg)"
  using parse_claim_only_finalize_writes [of s from_address V E _ _ _]
  by (auto simp: verifyHandler_def Let_def split: inbound.splits option.splits list.splits)

theorem verifyHandler_only_finalize_writes_witness:
  "verifyHandler sample_validation sample_collaborators None [alice_order] ''DEVICE''
     (Envelope True (Some [ADDR1]) (Some [(''username'', JStr ''alice'')]))
   = ([sendMessageToDevice ''DEVICE'' VALIDATION_FAILED], [alice_order])
   \<and> verifyHandler sample_validation sample_collaborators None [bound_order] ''DEVICE''
     (Envelope False (Some [ADDR1])
        (Some [(''message'', JStr (''I own the address: '' @ ADDR1)),
               (''username'', JStr ''alice''), (''provider'', JStr ''default'')]))
   = ([sendMessageToDevice ''DEVICE''
         (Literal ''Your data was attested successfully! We will send you unit later.''),
       emit_ATTESTATION_KIT_ATTESTED (JStr ''default'') (JStr ADDR1) ''unit1''
         [(''username'', JStr ''alice''), (''provider'', JStr ''default'')] ''DEVICE'',
       sendMessageToDevice ''DEVICE'' (Literal ''Attestation unit: unit1'')],
      [bound_order\<lparr>unit := Some ''unit1'', status := Attested\<rparr>])"
  using verifyHandler_only_finalize_writes
    [of "[alice_order]" "''DEVICE''" sample_validation sample_collaborators None
        "Envelope True (Some [ADDR1]) (Some [(''username'', JStr ''alice'')])"]
    verifyHandler_only_finalize_writes
    [of "[bound_order]" "''DEVICE''" sample_validation sample_collaborators None
        "Envelope False (Some [ADDR1])
          (Some [(''message'', JStr (''I own the address: '' @ ADDR1)),
                 (''username'', JStr ''alice''), (''provider'', JStr ''default'')])"]
  by (simp add: verifyHandler_def parse_claim_def check_address_def on_order_def attest_def
        updateUnitAndChangeStatus_sp_def db_update_def
        sample_validation_def sample_collaborators_def get_prop_def ADDR1_def trim_def isSpace_def
        getAttestationOrders_sp_def db_select_def build_query_sp_def entry_toks_sp_def
        truthy_str_def rows_result_def bound_order_def slot_test_def dataKey_def dataValue_def
        sql_eq_def sql_and_def sql_or_def isEqual_def slot_entries_def str_val_def Let_def)

subsection \<open>Attested is terminal (C9)\<close>

lemma attested_kept_refl [simp]: "attested_kept s s"
  by (simp add: attested_kept_def)

lemma attested_kept_append [simp]: "attested_kept s (s @ t)"
  by (simp add: attested_kept_def nth_append)

lemma attested_kept_trans:
  "attested_kept a b \<Longrightarrow> attested_kept b c \<Longrightarrow> attested_kept a c"
  by (auto simp: attested_kept_def)

lemma attested_kept_update:
  assumes "\<forall>x \<in> set s. eval_where x q = Some True \<longrightarrow> status x \<noteq> Attested"
  shows "attested_kept s (db_update s q f)"
  using assms by (auto simp: attested_kept_def db_update_def)

lemma same_id_same_row:
  "distinct (map order_id s) \<Longrightarrow> x \<in> set s \<Longrightarrow> r \<in> set s \<Longrightarrow> order_id x = order_id r
     \<Longrightarrow> x = r"
  by (meson distinct_map inj_onD)

lemma lookup_pl_row:
  assumes "getAttestationOrders_pl V s data address ident True False = Inr order"
    and "truthy_lookup order"
  shows "\<exists>r. order = Row r \<and> r \<in> set s \<and> status r \<noteq> Attested"
proof -
  let ?M = "matches_pl (case data of None \<Rightarrow> [] | Some d \<Rightarrow> d) address ident True"
  have o: "order = rows_result False (filter ?M s)"
    using getAttestationOrders_pl_result [OF assms(1)] .
  with assms(2) obtain r rs where f: "filter ?M s = r # rs"
    by (cases "filter ?M s") (auto simp: rows_result_single)
  with filter_head_holds [OF f] o show ?thesis
    by (auto simp: rows_result_single matches_pl_def)
qed

lemma db_insert_store:
  "snd (db_insert s p w ks vs) = s \<or> (\<exists>n. snd (db_insert s p w ks vs) = s @ [n])"
  by (simp add: db_insert_def)

lemma create_pl_store:
  "snd (createAttestationOrder_pl V s data address allowDuplicates) = s
   \<or> (\<exists>p w ks vs. snd (createAttestationOrder_pl V s data address allowDuplicates)
                      = snd (db_insert s p w ks vs))"
proof (cases "getAttestationOrders_pl V s data (if truthy_str address then address else None)
                None allowDuplicates False")
  case (Inl e)
  then show ?thesis by (simp add: createAttestationOrder_pl_def)
next
  case (Inr order)
  show ?thesis
  proof (cases "truthy_lookup order")
    case True
    with Inr show ?thesis by (simp add: createAttestationOrder_pl_def)
  next
    case False
    show ?thesis
    proof (cases data)
      case None
      with Inr False show ?thesis by (simp add: createAttestationOrder_pl_def)
    next
      case (Some d)
      obtain res s' where ins:
        "db_insert s None (if truthy_str address then address else None)
           (map fst d) (map String_js (map snd d)) = (res, s')"
        by (cases "db_insert s None (if truthy_str address then address else None)
                     (map fst d) (map String_js (map snd d))")
      have "snd (createAttestationOrder_pl V s data address allowDuplicates) = s
            \<or> snd (createAttestationOrder_pl V s data address allowDuplicates) = s'"
        using Inr False Some ins
        by (cases res) (simp_all add: createAttestationOrder_pl_def)
      with ins show ?thesis by (metis snd_conv)
    qed
  qed
qed

lemma create_pl_kept:
  "attested_kept s (snd (createAttestationOrder_pl V s data address allowDuplicates))"
  using create_pl_store [of V s data address allowDuplicates] db_insert_store
  by (metis attested_kept_append attested_kept_refl)

lemma bind_pl_kept:
  "attested_kept s (snd (updateWalletAddressInAttestationOrder_pl V s data walletAddress))"
  by (auto simp: updateWalletAddressInAttestationOrder_pl_def split: sum.splits
           intro!: attested_kept_update)

lemma rebind_pl_kept:
  "attested_kept s (snd (updateDeviceAddressInAttestationOrder_pl s orderId deviceAddress))"
  by (auto simp: updateDeviceAddressInAttestationOrder_pl_def intro!: attested_kept_update)

lemma update_by_id_kept:
  assumes "distinct (map order_id s)" and "r \<in> set s" and "status r \<noteq> Attested"
    and "\<forall>x. eval_where x q = Some True \<longrightarrow> order_id x = order_id r"
  shows "attested_kept s (db_update s q f)"
proof (rule attested_kept_update, intro ballI impI)
  fix x assume "x \<in> set s" "eval_where x q = Some True"
  with assms have "x = r" by (auto intro: same_id_same_row)
  with assms(3) show "status x \<noteq> Attested" by simp
qed

lemma unbind_pl_kept:
  assumes "distinct (map order_id s)"
  shows "attested_kept s (snd (removeWalletAddressInAttestationOrder_pl V s data address))"
proof (cases "getAttestationOrders_pl V s data address None True False")
  case (Inl e)
  then show ?thesis by (simp add: removeWalletAddressInAttestationOrder_pl_def)
next
  case (Inr order)
  show ?thesis
  proof (cases "truthy_lookup order")
    case True
    then obtain r where r: "order = Row r" "r \<in> set s" "status r \<noteq> Attested"
      using lookup_pl_row [OF Inr] by blast
    have "attested_kept s (db_update s [C (Eq_id (Some (int (order_id r))))] f)" for f
      using assms r(2,3) by (rule update_by_id_kept) simp
    then show ?thesis
      using Inr r by (simp add: removeWalletAddressInAttestationOrder_pl_def)
  next
    case False
    then show ?thesis using Inr by (simp add: removeWalletAddressInAttestationOrder_pl_def)
  qed
qed

lemma finalize_pl_kept:
  assumes "distinct (map order_id s)"
  shows "attested_kept s (snd (updateUnitAndChangeStatus_pl V s data address unit_id))"
proof (cases "getAttestationOrders_pl V s data address None True False")
  case (Inl e)
  then show ?thesis by (simp add: updateUnitAndChangeStatus_pl_def)
next
  case (Inr order)
  show ?thesis
  proof (cases "truthy_lookup order")
    case True
    then obtain r where r: "order = Row r" "r \<in> set s" "status r \<noteq> Attested"
      using lookup_pl_row [OF Inr] by blast
    have "attested_kept s
            (db_update s [C (Eq_id (Some (int (order_id r)))), AND, C (Eq_user_wallet_address a)] f)"
      for f a
      using assms r(2,3) by (rule update_by_id_kept) simp
    then show ?thesis
      using Inr r by (simp add: updateUnitAndChangeStatus_pl_def)
  next
    case False
    then show ?thesis using Inr by (simp add: updateUnitAndChangeStatus_pl_def)
  qed
qed

lemma run_kept:
  "distinct (map order_id s) \<Longrightarrow> attested_kept s (run V s op)"
  by (cases op) (simp_all add: create_pl_kept bind_pl_kept rebind_pl_kept unbind_pl_kept
                    finalize_pl_kept)

lemma max_id_ge: "x \<in> set s \<Longrightarrow> order_id x \<le> max_id s"
  by (induction s) (auto simp: max_id_def)

lemma db_update_ids:
  "(\<forall>x. order_id (f x) = order_id x) \<Longrightarrow> map order_id (db_update s q f) = map order_id s"
  by (simp add: db_update_def)

lemma db_insert_ids:
  assumes "distinct (map order_id s)"
  shows "distinct (map order_id (snd (db_insert s p w ks vs)))"
proof -
  have "Suc (max_id s) \<notin> order_id ` set s"
    using max_id_ge by fastforce
  with assms show ?thesis
    by (simp add: db_insert_def new_row_def)
qed

lemma create_pl_ids:
  assumes "distinct (map order_id s)"
  shows "distinct (map order_id (snd (createAttestationOrder_pl V s data address allowDuplicates)))"
  using create_pl_store [of V s data address allowDuplicates] assms db_insert_ids [OF assms]
  by auto

lemma run_ids:
  assumes "distinct (map order_id s)"
  shows "distinct (map order_id (run V s op))"
proof (cases op)
  case (createOrder d a dup)
  then show ?thesis using create_pl_ids [OF assms] by simp
next
  case (bindAddress d a)
  then show ?thesis using assms
    by (auto simp: updateWalletAddressInAttestationOrder_pl_def db_update_ids split: sum.splits)
next
  case (unbindAddress d a)
  then show ?thesis using assms
    by (auto simp: removeWalletAddressInAttestationOrder_pl_def db_update_ids split: sum.splits)
next
  case (finalize d a u)
  then show ?thesis using assms
    by (auto simp: updateUnitAndChangeStatus_pl_def db_update_ids split: sum.splits)
next
  case (rebindDeviceAddress i d)
  then show ?thesis using assms
    by (auto simp: updateDeviceAddressInAttestationOrder_pl_def db_update_ids)
qed

lemma runs_kept:
  "distinct (map order_id s) \<Longrightarrow> attested_kept s (foldl (run V) s ops)"
proof (induction ops arbitrary: s)
  case Nil
  then show ?case by simp
next
  case (Cons op ops)
  have "attested_kept s (run V s op)" using Cons.prems by (rule run_kept)
  moreover have "attested_kept (run V s op) (foldl (run V) (run V s op) ops)"
    using Cons.prems by (intro Cons.IH run_ids)
  ultimately show ?case by (auto intro: attested_kept_trans)
qed

lemma lookup_sp_row:
  assumes "getAttestationOrders_sp V s p data address ex False = Inr (Row r)"
  shows "r \<in> set s"
  using assms
  by (auto simp: getAttestationOrders_sp_def db_select_def rows_result_def
           split: if_splits option.splits list.splits dest: filter_head_holds)

lemma unbind_sp_kept:
  assumes "distinct (map order_id s)"
  shows "attested_kept s (snd (removeWalletAddressInAttestationOrder_sp V s p data address))"
proof (cases "getAttestationOrders_sp V s p data address True False")
  case (Inl e)
  then show ?thesis by (simp add: removeWalletAddressInAttestationOrder_sp_def)
next
  case (Inr order)
  show ?thesis
  proof (cases order)
    case (Row r)
    have rin: "r \<in> set s" using Inr Row by (auto dest: lookup_sp_row)
    have "status r = Addressed \<Longrightarrow>
            attested_kept s
              (db_update s [C (Eq_service_provider p), AND, C (Eq_id (Some (int (order_id r))))] f)"
      for f
      using assms rin by (rule update_by_id_kept) simp_all
    then show ?thesis
      using Inr Row by (simp add: removeWalletAddressInAttestationOrder_sp_def)
  qed (use Inr in \<open>simp_all add: removeWalletAddressInAttestationOrder_sp_def\<close>)
qed

lemma runs_ids:
  "distinct (map order_id s) \<Longrightarrow> distinct (map order_id (foldl (run V) s ops))"
  by (induction ops arbitrary: s) (simp_all add: run_ids)

text \<open>
  C9. No sequence of the operations of the store without providers (\<open>createOrder\<close>,
  \<open>bindAddress\<close>, \<open>unbindAddress\<close>, \<open>finalize\<close>, \<open>rebindDeviceAddress\<close>, with any
  arguments, returning or throwing) changes a row that is attested: its status, unit and
  wallet address, and every other column, stay as they are. This holds from every store
  whose ids are unique, so from every store that the operations build from the empty
  table; from a store whose ids are unique it also holds for
  \<open>removeWalletAddressInAttestationOrder\<close> of the provider-scoped store.
\<close>

theorem attested_is_terminal:
  "(distinct (map order_id s) \<longrightarrow>
      attested_kept s (foldl (run V) s ops)
      \<and> attested_kept s (snd (removeWalletAddressInAttestationOrder_sp V s p data address)))
   \<and> attested_kept (foldl (run V) [] before) (foldl (run V) (foldl (run V) [] before) ops)"
proof -
  have "distinct (map order_id (foldl (run V) [] before))"
    by (rule runs_ids) simp
  then show ?thesis
    using runs_kept unbind_sp_kept by blast
qed

theorem attested_is_terminal_witness:
  "foldl (run sample_validation) [attested_order]
     [unbindAddress (Some [(''username'', JStr ''alice'')]) (Some ADDR1),
      bindAddress (Some [(''username'', JStr ''alice'')]) (Some ADDR2),
      finalize (Some [(''username'', JStr ''alice'')]) (Some ADDR1) (Some ''unit2''),
      rebindDeviceAddress (Some 1) (Some ''DEVICE''),
      createOrder (Some [(''username'', JStr ''alice'')]) None True] ! 0 = attested_order"
  using attested_is_terminal
    [of "[attested_order]" sample_validation
        "[unbindAddress (Some [(''username'', JStr ''alice'')]) (Some ADDR1),
          bindAddress (Some [(''username'', JStr ''alice'')]) (Some ADDR2),
          finalize (Some [(''username'', JStr ''alice'')]) (Some ADDR1) (Some ''unit2''),
          rebindDeviceAddress (Some 1) (Some ''DEVICE''),
          createOrder (Some [(''username'', JStr ''alice'')]) None True]"]
  by (simp add: attested_kept_def attested_order_def)

subsection \<open>Invalid data in the provider-scoped store (C10)\<close>

lemma attest_invalid_data:
  assumes "\<not> isDataObject V (Some d)"
  shows "attest V E s from_address order address d
           = ([sendMessageToDevice from_address
                 (Literal ''Your data was attested successfully! We will send you unit later.''),
               sendMessageToDevice from_address (Literal ''Unknown error! Please try again.'')], s)"
  using assms by (simp add: attest_def updateUnitAndChangeStatus_sp_def Let_def split: sum.splits)

lemma on_order_error_value:
  assumes "\<not> isDataObject V (Some d)"
  shows "on_order V E s from_address (ErrorValue e) address d
           = (case transformDataValuesToObject E (ErrorValue e) of
                Inl err \<Rightarrow> ([sendMessageToDevice from_address INVALID_FORMAT_SIGNED_MESSAGE], s)
              | Inr stored \<Rightarrow>
                  if isEqual stored d \<and> get_prop d ''provider'' = JUndefined
                  then ([sendMessageToDevice from_address
                           (Literal ''Your data was attested successfully! We will send you unit later.''),
                         sendMessageToDevice from_address
                           (Literal ''Unknown error! Please try again.'')], s)
                  else ([sendMessageToDevice from_address MISMATCH_DATA], s))"
  using attest_invalid_data [OF assms, of E s from_address "ErrorValue e" address]
  by (simp add: on_order_def split: sum.splits)

text \<open>
  C10, as the code has it. In the provider-scoped store, when the data argument fails the
  data-object validation, \<open>createAttestationOrder\<close> returns the error object instead of
  throwing it, whatever the provider. \<open>getAttestationOrders\<close> checks the provider and the
  address first: with an invalid provider, or with a valid provider and an address that is
  given and invalid, it throws; with a valid provider and an address that is absent or
  valid it returns the error object, also for a filter without data, and the object is
  truthy. The verification handler, which tests the result of the lookup for truthiness,
  then takes the branch of a found order with the error object as the order: the status of
  the object is not \<open>attested\<close>, so the handler goes on to compare what
  \<open>transformDataValuesToObject\<close> reads from the object with the signed data, and the
  object's missing \<open>service_provider\<close> with the data's \<open>provider\<close>. When they differ it
  answers \<open>MISMATCH_DATA\<close>; when they agree it sends the notice of success, the write of
  the unit fails on the same validation, and it answers with the unknown error. It never
  answers that it cannot find the order, and the store is unchanged.
\<close>

theorem invalid_data_returns_error_object:
  assumes "\<not> isDataObject V data"
  shows "createAttestationOrder_sp V s serviceProvider data allowDuplicates
           = (Inr (Returned (invalid_data_error data)), s)
         \<and> (\<not> isServiceProvider V serviceProvider
              \<longrightarrow> getAttestationOrders_sp V s serviceProvider data address ex multiple
                    = Inl (ErrorWithMessage ''Invalid service provider''
                             [(''code'', JStr ''INVALID_DATA'')]))
         \<and> (isServiceProvider V serviceProvider \<and> truthy_str address \<and> \<not> isWalletAddress V address
              \<longrightarrow> getAttestationOrders_sp V s serviceProvider data address ex multiple
                    = Inl (ErrorWithMessage ''Invalid wallet address''
                             [(''code'', JStr ''INVALID_DATA'')]))
         \<and> (isServiceProvider V serviceProvider \<and> (truthy_str address \<longrightarrow> isWalletAddress V address)
              \<longrightarrow> getAttestationOrders_sp V s serviceProvider data address ex multiple
                    = Inr (ErrorValue (invalid_data_error data))
                  \<and> truthy_lookup (ErrorValue (invalid_data_error data)))
         \<and> (\<forall>d. data = Some d \<and> isServiceProvider V (Some provider)
                  \<and> (\<not> truthy claimed \<or> JStr walletAddress = claimed)
                  \<and> (truthy_str (str_arg claimed) \<longrightarrow> isWalletAddress V (str_arg claimed))
              \<longrightarrow> check_address V E provider s from_address walletAddress claimed d
                    = (case transformDataValuesToObject E (ErrorValue (invalid_data_error data)) of
                         Inl err \<Rightarrow>
                           ([sendMessageToDevice from_address INVALID_FORMAT_SIGNED_MESSAGE], s)
                       | Inr stored \<Rightarrow>
                           if isEqual stored d \<and> get_prop d ''provider'' = JUndefined
                           then ([sendMessageToDevice from_address
                                    (Literal ''Your data was attested successfully! We will send you unit later.''),
                                  sendMessageToDevice from_address
                                    (Literal ''Unknown error! Please try again.'')], s)
                           else ([sendMessageToDevice from_address MISMATCH_DATA], s))
                  \<and> sendMessageToDevice from_address CANNOT_FIND_ORDER
                      \<notin> set (fst (check_address V E provider s from_address walletAddress claimed d)))"
proof (intro conjI allI impI)
  show "createAttestationOrder_sp V s serviceProvider data allowDuplicates
           = (Inr (Returned (invalid_data_error data)), s)"
    using assms by (simp add: createAttestationOrder_sp_def invalid_data_error_def)
next
  assume "\<not> isServiceProvider V serviceProvider"
  then show "getAttestationOrders_sp V s serviceProvider data address ex multiple
               = Inl (ErrorWithMessage ''Invalid service provider''
                        [(''code'', JStr ''INVALID_DATA'')])"
    by (simp add: getAttestationOrders_sp_def)
next
  assume "isServiceProvider V serviceProvider \<and> truthy_str address \<and> \<not> isWalletAddress V address"
  then show "getAttestationOrders_sp V s serviceProvider data address ex multiple
               = Inl (ErrorWithMessage ''Invalid wallet address''
                        [(''code'', JStr ''INVALID_DATA'')])"
    by (simp add: getAttestationOrders_sp_def)
next
  assume "isServiceProvider V serviceProvider \<and> (truthy_str address \<longrightarrow> isWalletAddress V address)"
  then show "getAttestationOrders_sp V s serviceProvider data address ex multiple
                    = Inr (ErrorValue (invalid_data_error data))"
    using assms by (auto simp: getAttestationOrders_sp_def invalid_data_error_def)
next
  show "truthy_lookup (ErrorValue (invalid_data_error data))" by simp
next
  fix d
  assume h: "data = Some d \<and> isServiceProvider V (Some provider)
                  \<and> (\<not> truthy claimed \<or> JStr walletAddress = claimed)
                  \<and> (truthy_str (str_arg claimed) \<longrightarrow> isWalletAddress V (str_arg claimed))"
  then have g: "getAttestationOrders_sp V s (Some provider) (Some d) (str_arg claimed) False False
                  = Inr (ErrorValue (invalid_data_error data))"
    using assms by (auto simp: getAttestationOrders_sp_def invalid_data_error_def)
  from h assms have nd: "\<not> isDataObject V (Some d)" by simp
  have c: "check_address V E provider s from_address walletAddress claimed d
          = on_order V E s from_address (ErrorValue (invalid_data_error data)) claimed d"
    using h g by (auto simp: check_address_def)
  show e: "check_address V E provider s from_address walletAddress claimed d
          = (case transformDataValuesToObject E (ErrorValue (invalid_data_error data)) of
               Inl err \<Rightarrow> ([sendMessageToDevice from_address INVALID_FORMAT_SIGNED_MESSAGE], s)
             | Inr stored \<Rightarrow>
                 if isEqual stored d \<and> get_prop d ''provider'' = JUndefined
                 then ([sendMessageToDevice from_address
                          (Literal ''Your data was attested successfully! We will send you unit later.''),
                        sendMessageToDevice from_address
                          (Literal ''Unknown error! Please try again.'')], s)
                 else ([sendMessageToDevice from_address MISMATCH_DATA], s))"
    unfolding c by (rule on_order_error_value [OF nd])
  show "sendMessageToDevice from_address CANNOT_FIND_ORDER
          \<notin> set (fst (check_address V E provider s from_address walletAddress claimed d))"
    unfolding e by (simp split: sum.splits)
qed

theorem invalid_data_returns_error_object_witness:
  "createAttestationOrder_sp sample_validation [alice_order] (Some ''default'') None True
     = (Inr (Returned (ErrorWithMessage ''Invalid data object''
              [(''code'', JStr ''INVALID_DATA''), (''data'', JUndefined)])), [alice_order])
   \<and> getAttestationOrders_sp sample_validation [alice_order] None None None False False
     = Inl (ErrorWithMessage ''Invalid service provider'' [(''code'', JStr ''INVALID_DATA'')])
   \<and> getAttestationOrders_sp sample_validation [alice_order] (Some ''default'') None
       (Some ''ADDR'') False False
     = Inl (ErrorWithMessage ''Invalid wallet address'' [(''code'', JStr ''INVALID_DATA'')])
   \<and> getAttestationOrders_sp sample_validation [alice_order] (Some ''default'') None None False False
     = Inr (ErrorValue (ErrorWithMessage ''Invalid data object''
              [(''code'', JStr ''INVALID_DATA''), (''data'', JUndefined)]))
   \<and> verifyHandler sample_validation sample_collaborators None [] ''DEVICE''
       (Envelope False (Some [ADDR1])
          (Some [(''a'', JStr ''1''), (''b'', JStr ''2''), (''c'', JStr ''3''),
                 (''d'', JStr ''4''), (''e'', JStr ''5'')]))
     = ([sendMessageToDevice ''DEVICE'' MISMATCH_DATA], [])
   \<and> verifyHandler strict_validation sample_collaborators None [alice_order] ''DEVICE''
       (Envelope False (Some [ADDR1]) (Some []))
     = ([sendMessageToDevice ''DEVICE''
           (Literal ''Your data was attested successfully! We will send you unit later.''),
         sendMessageToDevice ''DEVICE'' (Literal ''Unknown error! Please try again.'')],
        [alice_order])"
proof -
  have none: "\<not> isDataObject sample_validation None"
    and five: "\<not> isDataObject sample_validation
                   (Some [(''a'', JStr ''1''), (''b'', JStr ''2''), (''c'', JStr ''3''),
                          (''d'', JStr ''4''), (''e'', JStr ''5'')])"
    and empty: "\<not> isDataObject strict_validation (Some [])"
    by (simp_all add: sample_validation_def strict_validation_def)
  have valid: "createAttestationOrder_sp sample_validation [alice_order] (Some ''default'') None True
          = (Inr (Returned (invalid_data_error None)), [alice_order])
        \<and> getAttestationOrders_sp sample_validation [alice_order] (Some ''default'') None None False False
          = Inr (ErrorValue (invalid_data_error None))"
    using invalid_data_returns_error_object
      [OF none, where s = "[alice_order]" and serviceProvider = "Some ''default''"
         and allowDuplicates = True and address = None and ex = False and multiple = False]
    by (simp add: sample_validation_def truthy_str_def)
  have no_provider: "getAttestationOrders_sp sample_validation [alice_order] None None None False False
          = Inl (ErrorWithMessage ''Invalid service provider'' [(''code'', JStr ''INVALID_DATA'')])"
    using invalid_data_returns_error_object
      [OF none, where s = "[alice_order]" and serviceProvider = None
         and address = None and ex = False and multiple = False]
    by (simp add: sample_validation_def truthy_str_def)
  have bad_address: "getAttestationOrders_sp sample_validation [alice_order] (Some ''default'') None
          (Some ''ADDR'') False False
          = Inl (ErrorWithMessage ''Invalid wallet address'' [(''code'', JStr ''INVALID_DATA'')])"
    using invalid_data_returns_error_object
      [OF none, where s = "[alice_order]" and serviceProvider = "Some ''default''"
         and address = "Some ''ADDR''" and ex = False and multiple = False]
    by (simp add: sample_validation_def truthy_str_def)
  have "check_address sample_validation sample_collaborators ''default'' [] ''DEVICE'' ADDR1
          JUndefined [(''a'', JStr ''1''), (''b'', JStr ''2''), (''c'', JStr ''3''),
                      (''d'', JStr ''4''), (''e'', JStr ''5'')]
        = ([sendMessageToDevice ''DEVICE'' MISMATCH_DATA], [])"
    using invalid_data_returns_error_object
      [OF five, where s = "[]" and provider = "''default''" and claimed = JUndefined
         and walletAddress = ADDR1 and E = sample_collaborators and from_address = "''DEVICE''"]
    by (simp add: sample_validation_def truthy_str_def sample_collaborators_def isEqual_def)
  then have mismatch: "verifyHandler sample_validation sample_collaborators None [] ''DEVICE''
       (Envelope False (Some [ADDR1])
          (Some [(''a'', JStr ''1''), (''b'', JStr ''2''), (''c'', JStr ''3''),
                 (''d'', JStr ''4''), (''e'', JStr ''5'')]))
     = ([sendMessageToDevice ''DEVICE'' MISMATCH_DATA], [])"
    by (simp add: verifyHandler_def parse_claim_def get_prop_def truthy_str_def Let_def)
  have "check_address strict_validation sample_collaborators ''default'' [alice_order] ''DEVICE''
          ADDR1 JUndefined []
        = ([sendMessageToDevice ''DEVICE''
              (Literal ''Your data was attested successfully! We will send you unit later.''),
            sendMessageToDevice ''DEVICE'' (Literal ''Unknown error! Please try again.'')],
           [alice_order])"
    using invalid_data_returns_error_object
      [OF empty, where s = "[alice_order]" and provider = "''default''" and claimed = JUndefined
         and walletAddress = ADDR1 and E = sample_collaborators and from_address = "''DEVICE''"]
    by (simp add: strict_validation_def sample_validation_def truthy_str_def
          sample_collaborators_def isEqual_def get_prop_def)
  then have success: "verifyHandler strict_validation sample_collaborators None [alice_order] ''DEVICE''
       (Envelope False (Some [ADDR1]) (Some []))
     = ([sendMessageToDevice ''DEVICE''
           (Literal ''Your data was attested successfully! We will send you unit later.''),
         sendMessageToDevice ''DEVICE'' (Literal ''Unknown error! Please try again.'')],
        [alice_order])"
    by (simp add: verifyHandler_def parse_claim_def get_prop_def truthy_str_def Let_def)
  from valid no_provider bad_address mismatch success show ?thesis
    by (simp add: invalid_data_error_def data_val_def)
qed

text \<open>
  The claim as stated fails where the provider or the address of the lookup is invalid:
  with data that fail the validation, \<open>getAttestationOrders\<close> then throws, since it checks
  the provider and the address before the data.
\<close>

theorem getAttestationOrders_invalid_data_throws_counterexample:
  "isDataObject sample_validation None = False
   \<and> getAttestationOrders_sp sample_validation [] None None None False False
     = Inl (ErrorWithMessage ''Invalid service provider'' [(''code'', JStr ''INVALID_DATA'')])
   \<and> getAttestationOrders_sp sample_validation [] (Some ''default'') None (Some ''ADDR'') False False
     = Inl (ErrorWithMessage ''Invalid wallet address'' [(''code'', JStr ''INVALID_DATA'')])"
  by (simp add: getAttestationOrders_sp_def sample_validation_def truthy_str_def)

subsection \<open>Creating an order that exists, in the store without providers\<close>

lemma map_of_set_prop:
  "map_of (set_prop ob k v) k' = (if k' = k then Some v else map_of ob k')"
  by (induction ob) auto

lemma get_prop_set_prop:
  "get_prop (set_prop ob k v) k' = (if k' = k then v else get_prop ob k')"
  by (simp add: get_prop_def map_of_set_prop)

lemma get_prop_spread:
  "k \<notin> fst ` set ps \<Longrightarrow> get_prop (spread ob ps) k = get_prop ob k"
  by (induction ps arbitrary: ob) (auto simp: get_prop_set_prop)

text \<open>
  The same call in the store without providers. When an order matches
  valid data (and the address, if one is given) and the data have no key \<open>code\<close> or
  \<open>status\<close>, \<open>createAttestationOrder(data, address, false)\<close> throws the error
  \<open>Order already exists\<close> with code \<open>ALREADY_EXISTS\<close> and the status and unit of the
  first matching order, and leaves the store as it was.
\<close>

theorem createAttestationOrder_pl_already_exists:
  assumes "isDataObject V (Some D)" and "truthy_str address \<longrightarrow> isWalletAddress V address"
    and "filter (matches_pl D (if truthy_str address then address else None) None False) s = r # rs"
    and "''code'' \<notin> fst ` set D" and "''status'' \<notin> fst ` set D"
  shows "\<exists>meta. createAttestationOrder_pl V s (Some D) address False
                  = (Inl (ErrorWithMessage ''Order already exists'' meta), s)
               \<and> get_prop meta ''code'' = JStr ''ALREADY_EXISTS''
               \<and> get_prop meta ''status'' = JStr (status_str (status r))
               \<and> get_prop meta ''unit'' = str_val (unit r)"
proof -
  define a where "a = (if truthy_str address then address else None)"
  have "truthy_str a \<longrightarrow> isWalletAddress V a"
    using assms(2) by (simp add: a_def)
  then have look: "getAttestationOrders_pl V s (Some D) a None False False = Inr (Row r)"
    using assms(1,3) getAttestationOrders_pl_rows [of V D a None s False False]
    by (simp add: a_def [symmetric] rows_result_single)
  let ?meta = "set_prop (spread [(''code'', JStr ''ALREADY_EXISTS''),
                                 (''status'', JStr (status_str (status r)))] D)
                 ''unit'' (str_val (unit r))"
  have "createAttestationOrder_pl V s (Some D) address False
          = (Inl (ErrorWithMessage ''Order already exists'' ?meta), s)"
    using assms(1,2) look by (simp add: createAttestationOrder_pl_def a_def [symmetric])
  moreover have "get_prop ?meta ''code'' = JStr ''ALREADY_EXISTS''"
    using assms(4) by (simp add: get_prop_set_prop get_prop_spread) (simp add: get_prop_def)
  moreover have "get_prop ?meta ''status'' = JStr (status_str (status r))"
    using assms(5) by (simp add: get_prop_set_prop get_prop_spread) (simp add: get_prop_def)
  moreover have "get_prop ?meta ''unit'' = str_val (unit r)"
    by (simp add: get_prop_set_prop)
  ultimately show ?thesis by blast
qed

theorem createAttestationOrder_pl_already_exists_witness:
  "createAttestationOrder_pl sample_validation [alice_order]
     (Some [(''username'', JStr ''alice''), (''userId'', JStr ''42'')]) None False
   = (Inl (ErrorWithMessage ''Order already exists''
        [(''code'', JStr ''ALREADY_EXISTS''), (''status'', JStr ''pending''),
         (''username'', JStr ''alice''), (''userId'', JStr ''42''), (''unit'', JNull)]),
      [alice_order])"
  using createAttestationOrder_pl_already_exists
    [of sample_validation "[(''username'', JStr ''alice''), (''userId'', JStr ''42'')]" None
        "[alice_order]" alice_order "[]"]
  by (simp add: createAttestationOrder_pl_def getAttestationOrders_pl_def
        sample_validation_def db_select_def build_query_pl_def and_unless_empty_def truthy_str_def
        rows_result_def alice_order_def str_val_def
        slot_test_def dataKey_def dataValue_def sql_eq_def)

subsection \<open>The query of the provider-scoped store\<close>

text \<open>
  The lookup of the provider-scoped store joins the four slot tests of an entry with
  \<open>OR\<close> and no parentheses, so that only the first test is bound to the provider and
  only the last to the filters that follow. A lookup for the provider \<open>other\<close> that
  excludes attested orders returns the attested order of the provider \<open>default\<close>, whose
  second slot holds the requested pair.
\<close>

theorem getAttestationOrders_sp_other_provider_attested:
  "getAttestationOrders_sp sample_validation [attested_order] (Some ''other'')
     (Some [(''userId'', JStr ''42'')]) None True False = Inr (Row attested_order)"
  by (simp add: getAttestationOrders_sp_def sample_validation_def db_select_def
        build_query_sp_def entry_toks_sp_def truthy_str_def rows_result_def
        attested_order_def alice_order_def slot_test_def dataKey_def dataValue_def
        sql_eq_def sql_and_def sql_or_def)

text \<open>
  For the same reason \<open>updateUnitAndChangeStatus\<close> of the provider-scoped store finds an
  order that is attested already, and replaces its unit.
\<close>

theorem updateUnitAndChangeStatus_sp_replaces_unit:
  "updateUnitAndChangeStatus_sp sample_validation [attested_order] (Some ''default'')
     (Some [(''username'', JStr ''alice''), (''userId'', JStr ''42'')]) (Some ADDR1)
     (Some ''unit2'')
   = (Inr (), [attested_order\<lparr>unit := Some ''unit2''\<rparr>])"
  by (simp add: updateUnitAndChangeStatus_sp_def getAttestationOrders_sp_def
        sample_validation_def db_select_def db_update_def
        build_query_sp_def entry_toks_sp_def truthy_str_def rows_result_def
        attested_order_def alice_order_def ADDR1_def slot_test_def dataKey_def dataValue_def
        sql_eq_def sql_and_def sql_or_def)

text \<open>
  And for the same reason the lifecycle functions of the provider-scoped store do reach
  their \<open>ALREADY_ATTESTED\<close> branches: the lookup that should exclude the attested
  order of the example returns it.
\<close>

theorem lifecycle_sp_attested_order:
  "removeWalletAddressInAttestationOrder_sp sample_validation [attested_order] (Some ''default'')
     (Some [(''username'', JStr ''alice''), (''userId'', JStr ''42'')]) (Some ADDR1)
   = (Inl (ErrorWithMessage ''Address is attested'' [(''code'', JStr ''ALREADY_ATTESTED'')]),
      [attested_order])
   \<and> updateWalletAddressInAttestationOrder_sp sample_validation [attested_order] (Some ''default'')
     (Some [(''username'', JStr ''alice''), (''userId'', JStr ''42'')]) (Some ADDR2)
   = (Inl (ErrorWithMessage ''Address is already attested'' [(''code'', JStr ''ALREADY_ATTESTED'')]),
      [attested_order])"
  by (simp add: removeWalletAddressInAttestationOrder_sp_def
        updateWalletAddressInAttestationOrder_sp_def getAttestationOrders_sp_def
        sample_validation_def db_select_def
        build_query_sp_def entry_toks_sp_def truthy_str_def rows_result_def
        attested_order_def alice_order_def ADDR1_def ADDR2_def slot_test_def dataKey_def
        dataValue_def sql_eq_def sql_and_def sql_or_def str_val_def)

text \<open>
  The lookup of the provider-scoped store compares the stored text of a value with the
  value as it is (line 154), while the row stores \<open>String(value)\<close> (line 28). For a value
  that is not a string the two can differ: a boolean is stored as \<open>true\<close> and looked up
  as \<open>1\<close>, so that \<open>createAttestationOrder\<close> called twice with \<open>allowDuplicates = true\<close>
  does not find the order it created, and inserts a second one.
\<close>

theorem createAttestationOrder_sp_boolean_value_inserts_twice:
  "createAttestationOrder_sp sample_validation [] (Some ''default'')
     (Some [(''verified'', JBool True)]) True
     = (Inr (Id 1),
        [\<lparr> order_id = 1, service_provider = Some ''default'',
            dataKey0 = Some ''verified'', dataValue0 = Some ''true'',
            dataKey1 = None, dataValue1 = None, dataKey2 = None, dataValue2 = None,
            dataKey3 = None, dataValue3 = None,
            user_wallet_address = None, user_device_address = None, unit = None,
            status = Pending \<rparr>])
   \<and> createAttestationOrder_sp sample_validation
        [\<lparr> order_id = 1, service_provider = Some ''default'',
            dataKey0 = Some ''verified'', dataValue0 = Some ''true'',
            dataKey1 = None, dataValue1 = None, dataKey2 = None, dataValue2 = None,
            dataKey3 = None, dataValue3 = None,
            user_wallet_address = None, user_device_address = None, unit = None,
            status = Pending \<rparr>]
        (Some ''default'') (Some [(''verified'', JBool True)]) True
     = (Inr (Id 2),
        [\<lparr> order_id = 1, service_provider = Some ''default'',
            dataKey0 = Some ''verified'', dataValue0 = Some ''true'',
            dataKey1 = None, dataValue1 = None, dataKey2 = None, dataValue2 = None,
            dataKey3 = None, dataValue3 = None,
            user_wallet_address = None, user_device_address = None, unit = None,
            status = Pending \<rparr>,
         \<lparr> order_id = 2, service_provider = Some ''default'',
            dataKey0 = Some ''verified'', dataValue0 = Some ''true'',
            dataKey1 = None, dataValue1 = None, dataKey2 = None, dataValue2 = None,
            dataKey3 = None, dataValue3 = None,
            user_wallet_address = None, user_device_address = None, unit = None,
            status = Pending \<rparr>])"
  by (simp add: createAttestationOrder_sp_def getAttestationOrders_sp_def
        sample_validation_def db_select_def build_query_sp_def entry_toks_sp_def truthy_str_def
        rows_result_def db_insert_def new_row_def nth_opt_def max_id_def
        slot_test_def dataKey_def dataValue_def sql_eq_def sql_and_def sql_or_def)

end
